theory Spec2Isabelle
  imports Complex_Main "HOL-Library.Sublist"
begin

section \<open>Strings and paths\<close>

text \<open>
  JavaScript strings are modelled as \<^typ>\<open>string\<close>.  The functions of this section are
  the library calls the repository uses: \<open>String.prototype.endsWith\<close>, \<open>startsWith\<close>,
  \<open>includes\<close>, \<open>trim\<close>, \<open>split("\n")\<close>, and the POSIX flavour of Node's \<open>path.join\<close>,
  \<open>path.basename\<close>, \<open>path.dirname\<close> and \<open>path.extname\<close>.
\<close>

definition endsWith :: "string \<Rightarrow> string \<Rightarrow> bool" where
  "endsWith s suf = suffix suf s"

definition startsWith :: "string \<Rightarrow> string \<Rightarrow> bool" where
  "startsWith s pre = prefix pre s"

text \<open>\<open>s.includes(sub)\<close>: \<open>sub\<close> occurs somewhere in \<open>s\<close> as a contiguous substring.\<close>

fun str_includes :: "string \<Rightarrow> string \<Rightarrow> bool" where
  "str_includes [] sub = (sub = [])"
| "str_includes (c # cs) sub = (prefix sub (c # cs) \<or> str_includes cs sub)"

text \<open>\<open>trim\<close> removes white space at both ends; the ASCII white space is modelled.\<close>

definition is_space :: "char \<Rightarrow> bool" where
  "is_space c = (c \<in> set [CHR '' '', CHR 0x09, CHR 0x0A, CHR 0x0B, CHR 0x0C, CHR 0x0D])"

definition trim :: "string \<Rightarrow> string" where
  "trim s = rev (dropWhile is_space (rev (dropWhile is_space s)))"

text \<open>\<open>s.split("\n")\<close>: the pieces between line feeds; the empty string gives one empty piece.\<close>

fun split_lines :: "string \<Rightarrow> string list" where
  "split_lines [] = [[]]"
| "split_lines (c # cs) =
     (if c = CHR 0x0A then [] # split_lines cs
      else (case split_lines cs of
              [] \<Rightarrow> [[c]]
            | l # ls \<Rightarrow> (c # l) # ls))"

definition is_slash :: "char \<Rightarrow> bool" where
  "is_slash c = (c = CHR ''/'')"

text \<open>
  \<open>path.join(dir, name)\<close> for a normalised \<open>dir\<close> and a \<open>name\<close> that \<open>readdir\<close> returned, or
  one of the fixed file and folder names of the scanner and the indexer: such a name
  holds no separator and is neither \<open>.\<close> nor \<open>..\<close>, so joining is concatenation with one
  separator.
\<close>

definition path_join :: "string \<Rightarrow> string \<Rightarrow> string" where
  "path_join dir nm =
     (if dir = [] then nm
      else if is_slash (last dir) then dir @ nm
      else dir @ ''/'' @ nm)"

text \<open>\<open>path.basename(p)\<close>: trailing separators are dropped, then the last component is taken.\<close>

definition basename :: "string \<Rightarrow> string" where
  "basename p = rev (takeWhile (\<lambda>c. \<not> is_slash c) (dropWhile is_slash (rev p)))"

text \<open>
  \<open>path.dirname(p)\<close>: scanning from the end, but never looking at the first character,
  trailing separators and then one component are skipped; the path up to the separator
  found there is the result.
\<close>

definition dirname :: "string \<Rightarrow> string" where
  "dirname p =
     (if p = [] then ''.''
      else let hasRoot = is_slash (hd p);
               rest = dropWhile (\<lambda>c. \<not> is_slash c) (dropWhile is_slash (rev (tl p)))
           in if rest = [] then (if hasRoot then ''/'' else ''.'')
              else if hasRoot \<and> length rest = 1 then ''//''
              else take (length rest) p)"

text \<open>
  \<open>path.extname(p)\<close>: the part of the last component from its last dot on; empty when
  there is no dot, when the only dot is the component's first character, or when the
  component is \<open>..\<close>.
\<close>

definition extname :: "string \<Rightarrow> string" where
  "extname p =
     (let base = basename p;
          ext = rev (takeWhile (\<lambda>c. c \<noteq> CHR ''.'') (rev base))
      in if CHR ''.'' \<notin> set base then []
         else if length ext + 1 = length base then []
         else if base = ''..'' then []
         else CHR ''.'' # ext)"


section \<open>Scanner\<close>

datatype language = Go | Python | Nodejs | Mixed

datatype ide = Vscode | Jetbrains | Multiple | NoIde

text \<open>
  Timestamps are milliseconds since the epoch.  \<open>Date.now()\<close> gives whole milliseconds;
  \<open>lastModified\<close> is \<open>stats.mtimeMs\<close>, a number with a fraction, or \<open>Date.now()\<close>.
\<close>

record DiscoveredProject =
  path :: string
  name :: string
  language :: language
  ide :: ide
  hasGit :: bool
  lastModified :: real
  indicators :: "string list"

text \<open>
  What the scanner reads from the machine.  \<open>readdir\<close> gives the entries of a directory
  with their \<open>isDirectory()\<close> flag, or \<open>None\<close> when it throws; \<open>realpath_cmd\<close> is the
  standard output of the \<open>realpath\<close> command, \<open>None\<close> when the command fails; \<open>stat_mtime\<close>
  is \<open>stat(dir).mtimeMs\<close>, \<open>None\<close> when \<open>stat\<close> throws; \<open>find_cmd\<close> is the standard output
  of the \<open>find\<close> command of the quick scan for a home directory, \<open>None\<close> when it fails;
  \<open>clock\<close> is \<open>Date.now()\<close>.
\<close>

datatype dirent = Dirent (entry_name: string) (isDirectory: bool)

record fsys =
  readdir :: "string \<Rightarrow> dirent list option"
  realpath_cmd :: "string \<Rightarrow> string option"
  stat_mtime :: "string \<Rightarrow> real option"
  find_cmd :: "string \<Rightarrow> string option"
  clock :: int

record scores =
  go :: nat
  python :: nat
  nodejs :: nat

text \<open>The IDE markers: the \<open>ide\<close> value and the indicators pushed for it.\<close>

definition ideMarkers :: "string list \<Rightarrow> ide \<times> string list" where
  "ideMarkers entries =
     (let hasVSCode = (''.vscode'' \<in> set entries);
          hasJetBrains = (''.idea'' \<in> set entries)
      in if hasVSCode \<and> hasJetBrains then (Multiple, [''.vscode'', ''.idea''])
         else if hasVSCode then (Vscode, [''.vscode''])
         else if hasJetBrains then (Jetbrains, [''.idea''])
         else (NoIde, []))"

definition gitIndicators :: "string list \<Rightarrow> string list" where
  "gitIndicators entries = (if ''.git'' \<in> set entries then [''.git''] else [])"

text \<open>The indicators pushed for the manifest files, in the order of the source.\<close>

definition manifestIndicators :: "string list \<Rightarrow> string list" where
  "manifestIndicators entries =
     (let hasGoMod = (''go.mod'' \<in> set entries);
          hasGoSum = (''go.sum'' \<in> set entries);
          hasRequirementsTxt = (''requirements.txt'' \<in> set entries);
          hasSetupPy = (''setup.py'' \<in> set entries);
          hasPipfile = (''Pipfile'' \<in> set entries);
          hasPackageJson = (''package.json'' \<in> set entries);
          hasTsConfig = (''tsconfig.json'' \<in> set entries);
          hasPyprojectToml = (''pyproject.toml'' \<in> set entries)
      in (if hasGoMod \<or> hasGoSum then [if hasGoMod then ''go.mod'' else ''go.sum''] else [])
         @ (if hasRequirementsTxt \<or> hasSetupPy \<or> hasPipfile \<or> hasPyprojectToml
            then (if hasRequirementsTxt then [''requirements.txt''] else [])
                 @ (if hasSetupPy then [''setup.py''] else [])
                 @ (if hasPipfile then [''Pipfile''] else [])
                 @ (if hasPyprojectToml then [''pyproject.toml''] else [])
            else [])
         @ (if hasPackageJson \<or> hasTsConfig
            then (if hasPackageJson then [''package.json''] else [])
                 @ (if hasTsConfig then [''tsconfig.json''] else [])
            else []))"

text \<open>The regular expression \<open>/\.(js|ts|jsx|tsx)$/\<close>.\<close>

definition isJsFile :: "string \<Rightarrow> bool" where
  "isJsFile e = (endsWith e ''.js'' \<or> endsWith e ''.ts'' \<or> endsWith e ''.jsx'' \<or> endsWith e ''.tsx'')"

text \<open>
  Ten points for a language whose manifest is present, plus one point for each entry
  with the language's extension.
\<close>

definition languageScores :: "string list \<Rightarrow> scores" where
  "languageScores entries =
     (let hasGoMod = (''go.mod'' \<in> set entries);
          hasGoSum = (''go.sum'' \<in> set entries);
          hasRequirementsTxt = (''requirements.txt'' \<in> set entries);
          hasSetupPy = (''setup.py'' \<in> set entries);
          hasPipfile = (''Pipfile'' \<in> set entries);
          hasPackageJson = (''package.json'' \<in> set entries);
          hasTsConfig = (''tsconfig.json'' \<in> set entries);
          hasPyprojectToml = (''pyproject.toml'' \<in> set entries);
          goFiles = length (filter (\<lambda>e. endsWith e ''.go'') entries);
          pyFiles = length (filter (\<lambda>e. endsWith e ''.py'') entries);
          jsFiles = length (filter isJsFile entries)
      in \<lparr> go = (if hasGoMod \<or> hasGoSum then 10 else 0) + goFiles,
           python = (if hasRequirementsTxt \<or> hasSetupPy \<or> hasPipfile \<or> hasPyprojectToml
                     then 10 else 0) + pyFiles,
           nodejs = (if hasPackageJson \<or> hasTsConfig then 10 else 0) + jsFiles \<rparr>)"

definition activeLanguages :: "scores \<Rightarrow> nat" where
  "activeLanguages sc = length (filter (\<lambda>score. score > 0) [go sc, python sc, nodejs sc])"

text \<open>
  The block "Determine language" of \<open>analyzeDirectory\<close>; \<open>None\<close> is its \<open>return null\<close>
  for a directory that is no code project.
\<close>

definition determineLanguage :: "scores \<Rightarrow> language option" where
  "determineLanguage sc =
     (let maxScore = max (go sc) (max (python sc) (nodejs sc))
      in if maxScore = 0 then None
         else if activeLanguages sc > 1 then Some Mixed
         else if go sc = maxScore then Some Go
         else if python sc = maxScore then Some Python
         else Some Nodejs)"

definition collectIndicators :: "string list \<Rightarrow> string list" where
  "collectIndicators entries =
     snd (ideMarkers entries) @ gitIndicators entries @ manifestIndicators entries"

definition analyzeDirectory :: "fsys \<Rightarrow> string \<Rightarrow> string list \<Rightarrow> DiscoveredProject option" where
  "analyzeDirectory fs dir entries =
     (case determineLanguage (languageScores entries) of
        None \<Rightarrow> None
      | Some lang \<Rightarrow>
          if length (collectIndicators entries) = 0 then None
          else Some \<lparr> path = dir,
                      name = basename dir,
                      language = lang,
                      ide = fst (ideMarkers entries),
                      hasGit = (''.git'' \<in> set entries),
                      lastModified = (case stat_mtime fs dir of Some m \<Rightarrow> m
                                      | None \<Rightarrow> of_int (clock fs)),
                      indicators = collectIndicators entries \<rparr>)"

definition getRealPath :: "fsys \<Rightarrow> string \<Rightarrow> string" where
  "getRealPath fs p = (case realpath_cmd fs p of Some out \<Rightarrow> trim out | None \<Rightarrow> p)"

definition skipDirs :: "string list" where
  "skipDirs = [''node_modules'', ''.git'', ''dist'', ''build'', ''target'', ''__pycache__'',
     ''.venv'', ''venv'', ''env'', ''.env'', ''vendor'', ''.next'', ''.cache'', ''tmp'', ''temp'',
     ''.npm'', ''.yarn'', ''coverage'', ''.pytest_cache'', ''.mypy_cache'', ''.tox'', ''eggs'',
     ''.eggs'', ''lib'', ''lib64'', ''parts'', ''sdist'', ''wheels'', ''.idea'', ''.vscode'']"

definition shouldSkipDirectory :: "string \<Rightarrow> bool" where
  "shouldSkipDirectory nm = (nm \<in> set skipDirs \<or> startsWith nm ''.'')"

text \<open>
  \<open>scanDirectory\<close> and its loop over the entries.  The set \<open>seen\<close> is shared by the whole
  scan, so both functions return it with the projects found.  A directory that cannot be
  read gives no project.  \<open>maxDepth\<close> is any number the caller passes; \<open>currentDepth\<close>
  counts up from 0.
\<close>

function scanDirectory ::
    "fsys \<Rightarrow> string \<Rightarrow> int \<Rightarrow> nat \<Rightarrow> string set \<Rightarrow> DiscoveredProject list \<times> string set"
  and scanEntries ::
    "fsys \<Rightarrow> string \<Rightarrow> int \<Rightarrow> nat \<Rightarrow> dirent list \<Rightarrow> string set \<Rightarrow> DiscoveredProject list \<times> string set"
where
  "scanDirectory fs dir maxDepth currentDepth seen =
     (if int currentDepth > maxDepth then ([], seen)
      else if getRealPath fs dir \<in> seen then ([], seen)
      else (case readdir fs dir of
              None \<Rightarrow> ([], insert (getRealPath fs dir) seen)
            | Some entries \<Rightarrow>
                (case analyzeDirectory fs dir (map entry_name entries) of
                   Some project \<Rightarrow> ([project], insert (getRealPath fs dir) seen)
                 | None \<Rightarrow> scanEntries fs dir maxDepth currentDepth entries
                             (insert (getRealPath fs dir) seen))))"
| "scanEntries fs dir maxDepth currentDepth [] seen = ([], seen)"
| "scanEntries fs dir maxDepth currentDepth (e # es) seen =
     (if \<not> isDirectory e \<or> shouldSkipDirectory (entry_name e)
      then scanEntries fs dir maxDepth currentDepth es seen
      else (case scanDirectory fs (path_join dir (entry_name e)) maxDepth (currentDepth + 1) seen of
              (subProjects, seen') \<Rightarrow>
                (case scanEntries fs dir maxDepth currentDepth es seen' of
                   (projects, seen'') \<Rightarrow> (subProjects @ projects, seen''))))"
  by pat_completeness auto
termination
  by (relation "measures [\<lambda>x. case x of
                    Inl (fs, dir, maxDepth, currentDepth, seen) \<Rightarrow>
                      (if int currentDepth > maxDepth then 0
                       else 2 * nat (maxDepth + 1 - int currentDepth) + 2)
                  | Inr (fs, dir, maxDepth, currentDepth, es, seen) \<Rightarrow>
                      2 * nat (maxDepth + 1 - int currentDepth) + 1,
                  \<lambda>x. case x of
                    Inl (fs, dir, maxDepth, currentDepth, seen) \<Rightarrow> 0
                  | Inr (fs, dir, maxDepth, currentDepth, es, seen) \<Rightarrow> length es]")
     auto

definition searchPaths :: "string \<Rightarrow> string list" where
  "searchPaths homeDir =
     [path_join homeDir ''Desktop'', path_join homeDir ''Documents'',
      path_join homeDir ''Projects'', path_join homeDir ''Development'',
      path_join homeDir ''dev'', path_join homeDir ''workspace'',
      path_join homeDir ''GolandProjects'', path_join homeDir ''PycharmProjects'',
      path_join homeDir ''IdeaProjects'', homeDir]"

fun scanPaths :: "fsys \<Rightarrow> int \<Rightarrow> string list \<Rightarrow> string set \<Rightarrow> DiscoveredProject list" where
  "scanPaths fs maxDepth [] seen = []"
| "scanPaths fs maxDepth (searchPath # rest) seen =
     (case scanDirectory fs searchPath maxDepth 0 seen of
        (foundProjects, seen') \<Rightarrow> foundProjects @ scanPaths fs maxDepth rest seen')"

definition discoverProjects :: "fsys \<Rightarrow> string \<Rightarrow> int \<Rightarrow> DiscoveredProject list" where
  "discoverProjects fs homeDir maxDepth = scanPaths fs maxDepth (searchPaths homeDir) {}"

text \<open>
  The quick scan: every line of the output of \<open>find\<close> is a marker directory, its parent is
  analysed.  \<open>None\<close> is an exception inside the \<open>try\<close> block (\<open>readdir\<close> of a parent throws),
  which discards what was found and falls back to the full scan of depth 2, as a failing
  \<open>find\<close> does.
\<close>

fun quickScanMarkers :: "fsys \<Rightarrow> string list \<Rightarrow> DiscoveredProject list option" where
  "quickScanMarkers fs [] = Some []"
| "quickScanMarkers fs (marker # markers) =
     (case readdir fs (dirname marker) of
        None \<Rightarrow> None
      | Some entries \<Rightarrow>
          (case quickScanMarkers fs markers of
             None \<Rightarrow> None
           | Some projects \<Rightarrow>
               (case analyzeDirectory fs (dirname marker) (map entry_name entries) of
                  Some project \<Rightarrow> Some (project # projects)
                | None \<Rightarrow> Some projects)))"

definition quickDiscoverProjects :: "fsys \<Rightarrow> string \<Rightarrow> DiscoveredProject list" where
  "quickDiscoverProjects fs homeDir =
     (case find_cmd fs homeDir of
        None \<Rightarrow> discoverProjects fs homeDir 2
      | Some out \<Rightarrow>
          (case quickScanMarkers fs (filter (\<lambda>l. l \<noteq> []) (split_lines (trim out))) of
             None \<Rightarrow> discoverProjects fs homeDir 2
           | Some projects \<Rightarrow> projects))"


section \<open>Registry\<close>

datatype indexStatus = Pending | Indexing | Completed | Failed

text \<open>
  \<open>ProjectMetadata extends DiscoveredProject\<close>.  An optional property is an \<open>option\<close>:
  \<open>None\<close> is \<open>undefined\<close>.
\<close>

record ProjectMetadata = DiscoveredProject +
  lastIndexed :: "int option"
  indexStatus :: indexStatus
  symbolCount :: "nat option"
  testCount :: "nat option"
  docCount :: "nat option"
  error :: "string option"

text \<open>
  A JavaScript \<open>Map\<close> keeps its keys in insertion order; \<open>set\<close> on a key that is present
  replaces the value where it stands, \<open>set\<close> on a new key appends.
\<close>

type_synonym 'v jsmap = "(string \<times> 'v) list"

definition map_get :: "'v jsmap \<Rightarrow> string \<Rightarrow> 'v option" where
  "map_get m k = map_of m k"

fun map_set :: "string \<Rightarrow> 'v \<Rightarrow> 'v jsmap \<Rightarrow> 'v jsmap" where
  "map_set k v [] = [(k, v)]"
| "map_set k v ((k', v') # m) = (if k' = k then (k, v) # m else (k', v') # map_set k v m)"

definition map_delete :: "string \<Rightarrow> 'v jsmap \<Rightarrow> 'v jsmap" where
  "map_delete k m = filter (\<lambda>kv. fst kv \<noteq> k) m"

definition map_values :: "'v jsmap \<Rightarrow> 'v list" where
  "map_values m = map snd m"

text \<open>
  The file \<open>registry.json\<close>.  \<open>JSON.stringify\<close> and \<open>JSON.parse\<close> are taken as an exact
  codec of the snapshot object: strings and finite numbers read back as written, and a
  property that is \<open>undefined\<close> is left out and reads back as \<open>undefined\<close>.  The disk holds
  \<open>None\<close> when the file is missing or when reading it as a snapshot throws; the
  \<open>projects\<close> property of a snapshot may be missing (\<open>parsed.projects || []\<close>).
  \<open>lastUpdated\<close> is the instant that \<open>toISOString\<close> renders.
\<close>

record snapshot =
  version :: string
  lastUpdated :: int
  snap_projects :: "ProjectMetadata list option"

type_synonym disk = "snapshot option"

text \<open>
  What one call of a mutator meets: the clock, and whether \<open>mkdir\<close> and \<open>writeFile\<close>
  succeed.  A failing write leaves the disk as the environment says (unchanged, or
  damaged); \<open>save\<close> logs the exception and goes on.
\<close>

datatype write_outcome = WriteOk | WriteFails disk

record io =
  now :: int
  write_result :: write_outcome

record ProjectRegistry =
  projects :: "ProjectMetadata jsmap"
  registryFile :: disk

fun load_projects :: "ProjectMetadata list \<Rightarrow> ProjectMetadata jsmap \<Rightarrow> ProjectMetadata jsmap" where
  "load_projects [] m = m"
| "load_projects (project # rest) m = load_projects rest (map_set (path project) project m)"

definition load :: "ProjectRegistry \<Rightarrow> ProjectRegistry" where
  "load r =
     (case registryFile r of
        None \<Rightarrow> r\<lparr>projects := []\<rparr>
      | Some parsed \<Rightarrow>
          r\<lparr>projects := load_projects (case snap_projects parsed of Some ps \<Rightarrow> ps | None \<Rightarrow> []) []\<rparr>)"

definition save :: "io \<Rightarrow> ProjectRegistry \<Rightarrow> ProjectRegistry" where
  "save e r =
     (case write_result e of
        WriteOk \<Rightarrow>
          r\<lparr>registryFile := Some \<lparr> version = ''1.0'', lastUpdated = now e,
                            snap_projects = Some (map_values (projects r)) \<rparr>\<rparr>
      | WriteFails d \<Rightarrow> r\<lparr>registryFile := d\<rparr>)"

text \<open>
  \<open>addProject\<close>: the object literal spreads the discovered project and sets five
  properties from the existing entry; it sets no \<open>error\<close> property.
\<close>

definition addProject :: "io \<Rightarrow> DiscoveredProject \<Rightarrow> ProjectRegistry \<Rightarrow> ProjectRegistry" where
  "addProject e project r =
     (let existing = map_get (projects r) (path project);
          metadata = \<lparr> path = path project, name = name project, language = language project,
                       ide = ide project, hasGit = hasGit project,
                       lastModified = lastModified project, indicators = indicators project,
                       lastIndexed = (case existing of Some x \<Rightarrow> lastIndexed x | None \<Rightarrow> None),
                       indexStatus = (case existing of Some x \<Rightarrow> indexStatus x | None \<Rightarrow> Pending),
                       symbolCount = (case existing of Some x \<Rightarrow> symbolCount x | None \<Rightarrow> None),
                       testCount = (case existing of Some x \<Rightarrow> testCount x | None \<Rightarrow> None),
                       docCount = (case existing of Some x \<Rightarrow> docCount x | None \<Rightarrow> None),
                       error = None \<rparr>
      in save e (r\<lparr>projects := map_set (path project) metadata (projects r)\<rparr>))"

text \<open>
  The optional argument of \<open>updateIndexStatus\<close>.  \<open>Object.assign\<close> copies the properties
  the object has: \<open>NoKey\<close> is a property that is not there and leaves the target alone,
  \<open>Key v\<close> is one that is there (\<open>Key None\<close> holds \<open>undefined\<close>) and overwrites it.
\<close>

datatype 'a key = NoKey | Key "'a option"

record patch =
  patch_symbolCount :: "nat key"
  patch_testCount :: "nat key"
  patch_docCount :: "nat key"
  patch_error :: "string key"

definition assignKey :: "'a option \<Rightarrow> 'a key \<Rightarrow> 'a option" where
  "assignKey old k = (case k of NoKey \<Rightarrow> old | Key v \<Rightarrow> v)"

definition objectAssign :: "ProjectMetadata \<Rightarrow> patch \<Rightarrow> ProjectMetadata" where
  "objectAssign project m =
     project\<lparr> symbolCount := assignKey (symbolCount project) (patch_symbolCount m),
              testCount := assignKey (testCount project) (patch_testCount m),
              docCount := assignKey (docCount project) (patch_docCount m),
              error := assignKey (error project) (patch_error m) \<rparr>"

definition updateIndexStatus ::
    "io \<Rightarrow> string \<Rightarrow> indexStatus \<Rightarrow> patch option \<Rightarrow> ProjectRegistry \<Rightarrow> ProjectRegistry" where
  "updateIndexStatus e projectPath status metadata r =
     (case map_get (projects r) projectPath of
        None \<Rightarrow> r
      | Some project \<Rightarrow>
          (let project1 = project\<lparr>indexStatus := status\<rparr>;
               project2 = (if status = Completed then project1\<lparr>lastIndexed := Some (now e)\<rparr>
                           else project1);
               project3 = (case metadata of Some m \<Rightarrow> objectAssign project2 m | None \<Rightarrow> project2)
           in save e (r\<lparr>projects := map_set projectPath project3 (projects r)\<rparr>)))"

definition getAllProjects :: "ProjectRegistry \<Rightarrow> ProjectMetadata list" where
  "getAllProjects r = map_values (projects r)"

definition getProject :: "ProjectRegistry \<Rightarrow> string \<Rightarrow> ProjectMetadata option" where
  "getProject r projectPath = map_get (projects r) projectPath"

definition removeProject :: "io \<Rightarrow> string \<Rightarrow> ProjectRegistry \<Rightarrow> ProjectRegistry" where
  "removeProject e projectPath r = save e (r\<lparr>projects := map_delete projectPath (projects r)\<rparr>)"

definition ONE_DAY :: int where
  "ONE_DAY = 24 * 60 * 60 * 1000"

text \<open>\<open>!p.lastIndexed\<close>: true for \<open>undefined\<close> and, as for every JavaScript number, for 0.\<close>

definition notLastIndexed :: "ProjectMetadata \<Rightarrow> bool" where
  "notLastIndexed p = (case lastIndexed p of None \<Rightarrow> True | Some t \<Rightarrow> t = 0)"

definition needsIndex :: "int \<Rightarrow> ProjectMetadata \<Rightarrow> bool" where
  "needsIndex nw p =
     (if notLastIndexed p then True
      else if indexStatus p = Failed then True
      else if nw - the (lastIndexed p) > ONE_DAY then True
      else False)"

definition getProjectsNeedingIndex :: "int \<Rightarrow> ProjectRegistry \<Rightarrow> ProjectMetadata list" where
  "getProjectsNeedingIndex nw r = filter (needsIndex nw) (getAllProjects r)"



section \<open>The \<open>list_projects\<close> tool\<close>

text \<open>
  The arguments are optional filters; the result is the view that is serialised for the
  caller.  \<open>view_lastIndexed\<close> is \<open>None\<close> for the string \<open>never\<close>, else the instant that is
  rendered; the counts default to 0.
\<close>

record listArgs =
  arg_language :: "language option"
  arg_status :: "indexStatus option"
  arg_ide :: "ide option"

record projectView =
  view_name :: string
  view_path :: string
  view_language :: language
  view_ide :: ide
  view_hasGit :: bool
  view_indexStatus :: indexStatus
  view_lastIndexed :: "int option"
  view_symbolCount :: nat
  view_testCount :: nat
  view_docCount :: nat
  view_error :: "string option"

definition projectViewOf :: "ProjectMetadata \<Rightarrow> projectView" where
  "projectViewOf p =
     \<lparr> view_name = name p, view_path = path p, view_language = language p, view_ide = ide p,
       view_hasGit = hasGit p, view_indexStatus = indexStatus p,
       view_lastIndexed = (if notLastIndexed p then None else lastIndexed p),
       view_symbolCount = (case symbolCount p of Some n \<Rightarrow> n | None \<Rightarrow> 0),
       view_testCount = (case testCount p of Some n \<Rightarrow> n | None \<Rightarrow> 0),
       view_docCount = (case docCount p of Some n \<Rightarrow> n | None \<Rightarrow> 0),
       view_error = error p \<rparr>"

definition listProjects :: "listArgs \<Rightarrow> ProjectRegistry \<Rightarrow> nat \<times> projectView list" where
  "listProjects args r =
     (let projects0 = getAllProjects r;
          projects1 = (case arg_language args of
                         Some l \<Rightarrow> filter (\<lambda>p. language p = l) projects0 | None \<Rightarrow> projects0);
          projects2 = (case arg_status args of
                         Some s \<Rightarrow> filter (\<lambda>p. indexStatus p = s) projects1 | None \<Rightarrow> projects1);
          projects3 = (case arg_ide args of
                         Some i \<Rightarrow> filter (\<lambda>p. ide p = i) projects2 | None \<Rightarrow> projects2)
      in (length projects3, map projectViewOf projects3))"


section \<open>Indexer\<close>

text \<open>
  A thrown value is an \<open>Error\<close> with its message or any other value with its rendering
  by \<open>String\<close>; \<open>errorMessage\<close> is
  \<open>error instanceof Error ? error.message : String(error)\<close>.
\<close>

datatype thrown = ErrorObj string | OtherValue string

fun errorMessage :: "thrown \<Rightarrow> string" where
  "errorMessage (ErrorObj m) = m"
| "errorMessage (OtherValue s) = s"

record document =
  doc_id :: string
  doc_text :: string
  doc_metadata :: "(string \<times> string) list"

text \<open>The records an analyzer reports, with their properties as the templates render them.\<close>

record symbol =
  sym_name :: string
  sym_type :: string
  sym_file :: string
  sym_line :: string
  sym_signature :: "string option"

record test =
  test_name :: string
  test_file :: string
  test_line :: string

text \<open>
  What one \<open>handleTool\<close> call and the reading of its answer can do: the call rejects; the
  answer has no text; \<open>JSON.parse\<close> or \<open>.length\<close> throws; the parsed value has a length
  (\<open>length || 0\<close>) but building the documents from it throws, because it is no array of
  records; or it is an array of records.
\<close>

datatype 'a found =
    Rejects thrown
  | NoText
  | ParseThrows thrown
  | BadItems nat thrown
  | Items "'a list"

record analyzer =
  find_symbols :: "string \<Rightarrow> symbol found"
  find_tests :: "string \<Rightarrow> test found"

datatype stat_kind = IsFile | IsDirectory | IsOther

text \<open>
  The collaborators as one call of \<open>indexProject\<close> meets them: the three analyzers,
  whether \<open>vectorDB.addDocuments\<close> rejects a batch, the file system calls of
  \<open>indexProjectDocs\<close> (\<open>None\<close> when they throw), and what the two registry updates meet.
\<close>

record env =
  goAnalyzer :: analyzer
  pythonAnalyzer :: analyzer
  nodeAnalyzer :: analyzer
  addDocuments_rejects :: "document list \<Rightarrow> thrown option"
  doc_stat :: "string \<Rightarrow> stat_kind option"
  doc_readFile :: "string \<Rightarrow> string option"
  doc_readdir :: "string \<Rightarrow> string list option"
  io_indexing :: io
  io_done :: io

text \<open>The calls made to the analyzers and to the storage, in the order they are made.\<close>

datatype call =
    HandleTool string string
  | AddDocuments "document list"

record counts =
  count_symbols :: nat
  count_tests :: nat
  count_docs :: nat

definition symbolDoc :: "string \<Rightarrow> string \<Rightarrow> ProjectMetadata \<Rightarrow> symbol \<Rightarrow> document" where
  "symbolDoc idTag lang project sy =
     \<lparr> doc_id = path project @ '':'' @ idTag @ '':symbol:'' @ sym_name sy,
       doc_text = sym_name sy @ '' '' @ sym_type sy @ '' in '' @ sym_file sy @ [CHR 0x0A]
                  @ (case sym_signature sy of Some sg \<Rightarrow> sg | None \<Rightarrow> []),
       doc_metadata = [(''type'', ''local_symbol''), (''language'', lang),
                       (''project_path'', path project), (''project_name'', name project),
                       (''symbol_name'', sym_name sy), (''symbol_type'', sym_type sy),
                       (''file'', sym_file sy), (''line'', sym_line sy)] \<rparr>"

definition testDoc :: "string \<Rightarrow> string \<Rightarrow> ProjectMetadata \<Rightarrow> test \<Rightarrow> document" where
  "testDoc idTag lang project t =
     \<lparr> doc_id = path project @ '':'' @ idTag @ '':test:'' @ test_name t,
       doc_text = ''Test: '' @ test_name t @ '' in '' @ test_file t,
       doc_metadata = [(''type'', ''local_test''), (''language'', lang),
                       (''project_path'', path project), (''project_name'', name project),
                       (''test_name'', test_name t), (''file'', test_file t),
                       (''line'', test_line t)] \<rparr>"

text \<open>
  One "find and index" block of a per-language indexer.  The result is the exception
  that ends the block, if any, the count assigned before it, and the calls made.
\<close>

definition indexFound ::
    "env \<Rightarrow> string \<Rightarrow> string \<Rightarrow> 'a found \<Rightarrow> ('a \<Rightarrow> document) \<Rightarrow> thrown option \<times> nat \<times> call list" where
  "indexFound e toolName projectPath res mk =
     (case res of
        Rejects t \<Rightarrow> (Some t, 0, [HandleTool toolName projectPath])
      | NoText \<Rightarrow> (None, 0, [HandleTool toolName projectPath])
      | ParseThrows t \<Rightarrow> (Some t, 0, [HandleTool toolName projectPath])
      | BadItems n t \<Rightarrow> (Some t, n, [HandleTool toolName projectPath])
      | Items xs \<Rightarrow>
          (if length (map mk xs) > 0
           then (addDocuments_rejects e (map mk xs), length xs,
                 [HandleTool toolName projectPath, AddDocuments (map mk xs)])
           else (None, length xs, [HandleTool toolName projectPath])))"

definition docPatterns :: "string list" where
  "docPatterns = [''README.md'', ''README.txt'', ''README'', ''CHANGELOG.md'',
                  ''CONTRIBUTING.md'', ''docs'', ''documentation'']"

definition localDoc :: "string \<Rightarrow> ProjectMetadata \<Rightarrow> string \<Rightarrow> string \<Rightarrow> document" where
  "localDoc lang project fileName content =
     \<lparr> doc_id = path project @ '':doc:'' @ fileName,
       doc_text = content,
       doc_metadata = [(''type'', ''local_doc''), (''language'', lang),
                       (''project_path'', path project), (''project_name'', name project),
                       (''file'', fileName)] \<rparr>"

text \<open>
  The files of a documentation directory, until one cannot be read: the exception leaves
  the loop and is caught for this pattern, the documents pushed before it stay.
\<close>

fun docDirFiles :: "env \<Rightarrow> string \<Rightarrow> ProjectMetadata \<Rightarrow> string \<Rightarrow> string \<Rightarrow> string list \<Rightarrow> document list" where
  "docDirFiles e lang project pat docPath [] = []"
| "docDirFiles e lang project pat docPath (f # fs) =
     (if endsWith f ''.md'' \<or> endsWith f ''.txt''
      then (case doc_readFile e (path_join docPath f) of
              None \<Rightarrow> []
            | Some content \<Rightarrow>
                localDoc lang project (pat @ ''/'' @ f) content
                  # docDirFiles e lang project pat docPath fs)
      else docDirFiles e lang project pat docPath fs)"

definition docsOfPattern :: "env \<Rightarrow> string \<Rightarrow> ProjectMetadata \<Rightarrow> string \<Rightarrow> document list" where
  "docsOfPattern e lang project pat =
     (let docPath = path_join (path project) pat
      in case doc_stat e docPath of
           None \<Rightarrow> []
         | Some IsFile \<Rightarrow>
             (case doc_readFile e docPath of
                None \<Rightarrow> []
              | Some content \<Rightarrow> [localDoc lang project pat content])
         | Some IsDirectory \<Rightarrow>
             (case doc_readdir e docPath of
                None \<Rightarrow> []
              | Some files \<Rightarrow> docDirFiles e lang project pat docPath files)
         | Some IsOther \<Rightarrow> [])"

text \<open>
  \<open>indexProjectDocs\<close>: \<open>docCount\<close> goes up with every document pushed, so it is their
  number; a rejecting \<open>addDocuments\<close> is caught and logged.
\<close>

definition indexProjectDocs :: "env \<Rightarrow> ProjectMetadata \<Rightarrow> string \<Rightarrow> nat \<times> call list" where
  "indexProjectDocs e project lang =
     (let docDocs = concat (map (docsOfPattern e lang project) docPatterns)
      in (length docDocs, if length docDocs > 0 then [AddDocuments docDocs] else []))"

text \<open>
  The three per-language indexers are the same text with other names: the tag in the
  document ids, the language of the metadata, the analyzer and its tool names.  The
  \<open>catch\<close> of their \<open>try\<close> block logs the exception and returns the counts as they stand.
\<close>

definition indexWith ::
    "env \<Rightarrow> analyzer \<Rightarrow> string \<Rightarrow> string \<Rightarrow> string \<Rightarrow> ProjectMetadata \<Rightarrow> counts \<times> call list" where
  "indexWith e an toolPrefix idTag lang project =
     (case indexFound e (toolPrefix @ ''_find_symbols'') (path project)
             (find_symbols an (path project)) (symbolDoc idTag lang project) of
        (Some t, symbolCount', calls1) \<Rightarrow>
          (\<lparr>count_symbols = symbolCount', count_tests = 0, count_docs = 0\<rparr>, calls1)
      | (None, symbolCount', calls1) \<Rightarrow>
          (case indexFound e (toolPrefix @ ''_find_tests'') (path project)
                  (find_tests an (path project)) (testDoc idTag lang project) of
             (Some t, testCount', calls2) \<Rightarrow>
               (\<lparr>count_symbols = symbolCount', count_tests = testCount', count_docs = 0\<rparr>,
                calls1 @ calls2)
           | (None, testCount', calls2) \<Rightarrow>
               (case indexProjectDocs e project lang of
                  (docCount', calls3) \<Rightarrow>
                    (\<lparr>count_symbols = symbolCount', count_tests = testCount',
                      count_docs = docCount'\<rparr>, calls1 @ calls2 @ calls3))))"

definition indexGoProject :: "env \<Rightarrow> ProjectMetadata \<Rightarrow> counts \<times> call list" where
  "indexGoProject e project = indexWith e (goAnalyzer e) ''go'' ''go'' ''go'' project"

definition indexPythonProject :: "env \<Rightarrow> ProjectMetadata \<Rightarrow> counts \<times> call list" where
  "indexPythonProject e project =
     indexWith e (pythonAnalyzer e) ''python'' ''python'' ''python'' project"

definition indexNodeProject :: "env \<Rightarrow> ProjectMetadata \<Rightarrow> counts \<times> call list" where
  "indexNodeProject e project = indexWith e (nodeAnalyzer e) ''node'' ''node'' ''nodejs'' project"

text \<open>
  A mixed project runs the three indexers under \<open>Promise.allSettled\<close> and adds up the
  fulfilled results; none of the three can reject, each catches what its block throws.
  Their calls interleave at run time; the trace lists them one indexer after the other.
\<close>

definition indexByLanguage :: "env \<Rightarrow> ProjectMetadata \<Rightarrow> counts \<times> call list" where
  "indexByLanguage e project =
     (case language project of
        Go \<Rightarrow> indexGoProject e project
      | Python \<Rightarrow> indexPythonProject e project
      | Nodejs \<Rightarrow> indexNodeProject e project
      | Mixed \<Rightarrow>
          (case (indexGoProject e project, indexPythonProject e project,
                 indexNodeProject e project) of
             ((g, cg), (p, cp), (n, cn)) \<Rightarrow>
               (\<lparr>count_symbols = count_symbols g + count_symbols p + count_symbols n,
                 count_tests = count_tests g + count_tests p + count_tests n,
                 count_docs = count_docs g + count_docs p + count_docs n\<rparr>,
                cg @ cp @ cn)))"

text \<open>
  The indexer with what it drives: its registry, the flag \<open>isIndexing\<close>, the trace of its
  calls to the collaborators, and the invocations of \<open>indexPendingProjects\<close> that are
  suspended in their loop, each with the projects it has still to index.
\<close>

record ProjectIndexer =
  registry :: ProjectRegistry
  isIndexing :: bool
  calls :: "call list"
  batches :: "ProjectMetadata list list"

text \<open>
  The \<open>try\<close> block of \<open>indexProject\<close>.  \<open>Inl\<close> would be an exception that leaves it; every
  call it awaits catches its own exceptions, so the block always ends with \<open>Inr\<close>.
\<close>

definition indexProject_try :: "env \<Rightarrow> ProjectMetadata \<Rightarrow> ProjectIndexer \<Rightarrow> thrown + ProjectIndexer" where
  "indexProject_try e project ix =
     (let r1 = updateIndexStatus (io_indexing e) (path project) Indexing None (registry ix)
      in case indexByLanguage e project of
           (c, cs) \<Rightarrow>
             Inr (ix\<lparr> registry :=
                        updateIndexStatus (io_done e) (path project) Completed
                          (Some \<lparr> patch_symbolCount = Key (Some (count_symbols c)),
                                  patch_testCount = Key (Some (count_tests c)),
                                  patch_docCount = Key (Some (count_docs c)),
                                  patch_error = NoKey \<rparr>) r1,
                      calls := calls ix @ cs \<rparr>))"

definition indexProject :: "env \<Rightarrow> ProjectMetadata \<Rightarrow> ProjectIndexer \<Rightarrow> ProjectIndexer" where
  "indexProject e project ix =
     (case indexProject_try e project ix of
        Inr ix' \<Rightarrow> ix'
      | Inl err \<Rightarrow>
          ix\<lparr> registry :=
                 updateIndexStatus (io_done e) (path project) Failed
                   (Some \<lparr> patch_symbolCount = NoKey, patch_testCount = NoKey,
                           patch_docCount = NoKey,
                           patch_error = Key (Some (errorMessage err)) \<rparr>) (registry ix) \<rparr>)"

definition reindexProject :: "env \<Rightarrow> string \<Rightarrow> ProjectIndexer \<Rightarrow> thrown + ProjectIndexer" where
  "reindexProject e projectPath ix =
     (case getProject (registry ix) projectPath of
        None \<Rightarrow> Inl (ErrorObj (''Project not found: '' @ projectPath))
      | Some project \<Rightarrow> Inr (indexProject e project ix))"

text \<open>
  \<open>indexPendingProjects\<close> on the event loop.  The body of an \<open>async\<close> method runs without
  interruption until it suspends.  A call tests the flag, sets it and reads the projects
  that need indexing in one uninterrupted run; with nothing to index it reaches
  \<open>finally\<close> in that same run.  Otherwise it suspends in
  \<open>await this.indexProject(project)\<close>, once for each project.  One step of a suspended
  invocation stands for one such \<open>indexProject\<close> as a whole; the continuation after the
  last one runs \<open>finally\<close>, which clears the flag.  Between two steps anything else may
  run.  Neither \<open>indexProject\<close> nor the registry reads or writes the flag, so the places
  where \<open>indexProject\<close> itself suspends make no difference to it.  The line the skipped
  call writes to the log is not part of the state.
\<close>

definition indexPendingProjects_call :: "int \<Rightarrow> ProjectIndexer \<Rightarrow> ProjectIndexer" where
  "indexPendingProjects_call nw ix =
     (if isIndexing ix then ix
      else (let projectsToIndex = getProjectsNeedingIndex nw (registry ix)
            in if projectsToIndex = [] then ix\<lparr>isIndexing := False\<rparr>
               else ix\<lparr>isIndexing := True, batches := batches ix @ [projectsToIndex]\<rparr>))"

definition indexPendingProjects_resume :: "nat \<Rightarrow> env \<Rightarrow> ProjectIndexer \<Rightarrow> ProjectIndexer" where
  "indexPendingProjects_resume i e ix =
     (if i < length (batches ix) then
        (case batches ix ! i of
           [] \<Rightarrow> ix\<lparr>isIndexing := False, batches := take i (batches ix) @ drop (Suc i) (batches ix)\<rparr>
         | project # rest \<Rightarrow>
             (let ix' = indexProject e project ix
              in if rest = []
                 then ix'\<lparr>isIndexing := False,
                          batches := take i (batches ix) @ drop (Suc i) (batches ix)\<rparr>
                 else ix'\<lparr>batches := (batches ix)[i := rest]\<rparr>))
      else ix)"

text \<open>
  What can happen to the indexer: a batch request (the hourly schedule calls
  \<open>indexPendingProjects\<close>), a step of a suspended batch, a forced reindex of one project
  (from the tool or a file watcher), and the registry mutators of discovery.
\<close>

datatype event =
    CallBatch int
  | ResumeBatch nat env
  | Reindex string env
  | AddProject io DiscoveredProject
  | RemoveProject io string

fun step :: "event \<Rightarrow> ProjectIndexer \<Rightarrow> ProjectIndexer" where
  "step (CallBatch nw) ix = indexPendingProjects_call nw ix"
| "step (ResumeBatch i e) ix = indexPendingProjects_resume i e ix"
| "step (Reindex p e) ix = (case reindexProject e p ix of Inr ix' \<Rightarrow> ix' | Inl err \<Rightarrow> ix)"
| "step (AddProject e project) ix = ix\<lparr>registry := addProject e project (registry ix)\<rparr>"
| "step (RemoveProject e p) ix = ix\<lparr>registry := removeProject e p (registry ix)\<rparr>"

fun run :: "event list \<Rightarrow> ProjectIndexer \<Rightarrow> ProjectIndexer" where
  "run [] ix = ix"
| "run (ev # evs) ix = run evs (step ev ix)"

definition newIndexer :: "ProjectRegistry \<Rightarrow> ProjectIndexer" where
  "newIndexer r = \<lparr> registry = r, isIndexing = False, calls = [], batches = [] \<rparr>"


section \<open>File watcher\<close>

definition ignorePaths :: "string list" where
  "ignorePaths = [''node_modules'', ''.git'', ''dist'', ''build'', ''target'', ''__pycache__'',
     ''.venv'', ''venv'', ''env'', ''vendor'', ''.next'', ''.cache'', ''tmp'', ''temp'',
     ''coverage'', ''.pytest_cache'', ''.mypy_cache'', ''.idea'', ''.vscode'']"

definition shouldIgnoreFile :: "string \<Rightarrow> bool" where
  "shouldIgnoreFile filename = list_ex (\<lambda>ignorePath. str_includes filename ignorePath) ignorePaths"

definition sourceExtensions :: "language \<Rightarrow> string list" where
  "sourceExtensions l =
     (case l of
        Go \<Rightarrow> [''.go'']
      | Python \<Rightarrow> [''.py'']
      | Nodejs \<Rightarrow> [''.js'', ''.ts'', ''.jsx'', ''.tsx'', ''.mjs'', ''.cjs'']
      | Mixed \<Rightarrow> [''.go'', ''.py'', ''.js'', ''.ts'', ''.jsx'', ''.tsx'', ''.mjs'', ''.cjs''])"

definition isSourceFile :: "string \<Rightarrow> language \<Rightarrow> bool" where
  "isSourceFile filename l = (extname filename \<in> set (sourceExtensions l))"

text \<open>
  The specification's rule for a raw notification: the changed path lies under a
  directory with a denylisted name, that is, one of its components before the last is
  such a name.
\<close>

fun components :: "string \<Rightarrow> string list" where
  "components [] = [[]]"
| "components (c # cs) =
     (if is_slash c then [] # components cs
      else (case components cs of
              [] \<Rightarrow> [[c]]
            | l # ls \<Rightarrow> (c # l) # ls))"

definition underNoiseDirectory :: "string \<Rightarrow> bool" where
  "underNoiseDirectory filename =
     list_ex (\<lambda>d. d \<in> set ignorePaths) (butlast (components filename))"

text \<open>
  The watcher and the timers of the runtime.  \<open>watchers\<close> holds, for each watched path,
  the project object its callback closed over; \<open>debounceTimers\<close> maps a path to the
  handle \<open>setTimeout\<close> returned; \<open>timers\<close> are the timeouts that are armed, each with
  its handle, the path of the project its callback closed over, and the time it is due;
  \<open>awaiting\<close> lists the callbacks that have called \<open>reindexProject\<close> and wait for it to
  settle; \<open>reindexCalls\<close> records every call of \<open>indexer.reindexProject\<close> with the due
  time of the timeout that made it.
\<close>

record ProjectFileWatcher =
  watchers :: "ProjectMetadata jsmap"
  debounceTimers :: "nat jsmap"
  timers :: "(nat \<times> string \<times> int) list"
  nextHandle :: nat
  awaiting :: "string list"
  reindexCalls :: "(int \<times> string) list"

definition debounceDelay :: int where
  "debounceDelay = 5000"

definition newWatcher :: ProjectFileWatcher where
  "newWatcher = \<lparr> watchers = [], debounceTimers = [], timers = [], nextHandle = 0,
                  awaiting = [], reindexCalls = [] \<rparr>"

text \<open>\<open>clearTimeout\<close> disarms the timeout with this handle, if it is still armed.\<close>

definition clearTimeout :: "nat \<Rightarrow> ProjectFileWatcher \<Rightarrow> ProjectFileWatcher" where
  "clearTimeout h w = w\<lparr>timers := filter (\<lambda>tm. fst tm \<noteq> h) (timers w)\<rparr>"

definition debounceReindex :: "int \<Rightarrow> ProjectMetadata \<Rightarrow> ProjectFileWatcher \<Rightarrow> ProjectFileWatcher" where
  "debounceReindex t project w =
     (let w1 = (case map_get (debounceTimers w) (path project) of
                  Some existingTimer \<Rightarrow> clearTimeout existingTimer w
                | None \<Rightarrow> w);
          timer = nextHandle w1
      in w1\<lparr> timers := timers w1 @ [(timer, path project, t + debounceDelay)],
              nextHandle := Suc timer,
              debounceTimers := map_set (path project) timer (debounceTimers w1) \<rparr>)"

definition handleFileChange ::
    "int \<Rightarrow> ProjectMetadata \<Rightarrow> string \<Rightarrow> ProjectFileWatcher \<Rightarrow> ProjectFileWatcher" where
  "handleFileChange t project filename w =
     (if shouldIgnoreFile filename then w
      else if \<not> isSourceFile filename (language project) then w
      else debounceReindex t project w)"

text \<open>\<open>watchProject\<close>; \<open>watch_ok\<close> says whether \<open>fs.watch\<close> installs the watcher or throws.\<close>

definition watchProject :: "bool \<Rightarrow> ProjectMetadata \<Rightarrow> ProjectFileWatcher \<Rightarrow> ProjectFileWatcher" where
  "watchProject watch_ok project w =
     (if map_get (watchers w) (path project) \<noteq> None then w
      else if watch_ok then w\<lparr>watchers := map_set (path project) project (watchers w)\<rparr>
      else w)"

definition stopWatchingProject :: "string \<Rightarrow> ProjectFileWatcher \<Rightarrow> ProjectFileWatcher" where
  "stopWatchingProject projectPath w =
     (let w1 = (if map_get (watchers w) projectPath \<noteq> None
                then w\<lparr>watchers := map_delete projectPath (watchers w)\<rparr> else w)
      in case map_get (debounceTimers w1) projectPath of
           Some timer \<Rightarrow>
             (clearTimeout timer w1)\<lparr>debounceTimers := map_delete projectPath (debounceTimers w1)\<rparr>
         | None \<Rightarrow> w1)"

text \<open>
  The callback of a timeout runs in two parts.  When the timeout is due it calls
  \<open>reindexProject\<close> and waits; when that call has settled, its \<open>finally\<close> block deletes the
  entry of the project's path from \<open>debounceTimers\<close>.
\<close>

definition fireTimer :: "nat \<times> string \<times> int \<Rightarrow> ProjectFileWatcher \<Rightarrow> ProjectFileWatcher" where
  "fireTimer tm w =
     w\<lparr> timers := filter (\<lambda>x. fst x \<noteq> fst tm) (timers w),
        reindexCalls := reindexCalls w @ [(snd (snd tm), fst (snd tm))],
        awaiting := awaiting w @ [fst (snd tm)] \<rparr>"

definition reindexSettled :: "string \<Rightarrow> ProjectFileWatcher \<Rightarrow> ProjectFileWatcher" where
  "reindexSettled projectPath w =
     (if projectPath \<in> set (awaiting w)
      then w\<lparr> awaiting := remove1 projectPath (awaiting w),
              debounceTimers := map_delete projectPath (debounceTimers w) \<rparr>
      else w)"

text \<open>The clock reaches \<open>t\<close>: the armed timeouts that are due fire, in the order they were armed.\<close>

definition advance :: "int \<Rightarrow> ProjectFileWatcher \<Rightarrow> ProjectFileWatcher" where
  "advance t w = fold fireTimer (filter (\<lambda>tm. snd (snd tm) \<le> t) (timers w)) w"

text \<open>
  What the event loop delivers to the watcher, each at its time: a raw notification of
  the watcher installed for a path (\<open>fs.watch\<close> passes the file name, or nothing), the
  settling of a \<open>reindexProject\<close> call, or nothing but the passing of time.  A timeout that
  is due fires before what is delivered at that time.
\<close>

datatype watch_event =
    Change string "string option"
  | Settled string
  | Tick

fun deliver :: "watch_event \<Rightarrow> int \<Rightarrow> ProjectFileWatcher \<Rightarrow> ProjectFileWatcher" where
  "deliver (Change watched filename) t w =
     (case map_get (watchers w) watched of
        None \<Rightarrow> w
      | Some project \<Rightarrow>
          (case filename of
             None \<Rightarrow> w
           | Some f \<Rightarrow> if f = [] then w else handleFileChange t project f w))"
| "deliver (Settled projectPath) t w = reindexSettled projectPath w"
| "deliver Tick t w = w"

fun watch_run :: "(int \<times> watch_event) list \<Rightarrow> ProjectFileWatcher \<Rightarrow> ProjectFileWatcher" where
  "watch_run [] w = w"
| "watch_run ((t, ev) # evs) w = watch_run evs (deliver ev t (advance t w))"

text \<open>The reindex calls made for one project.\<close>

definition reindexCallsFor :: "string \<Rightarrow> ProjectFileWatcher \<Rightarrow> (int \<times> string) list" where
  "reindexCallsFor projectPath w = filter (\<lambda>c. snd c = projectPath) (reindexCalls w)"


section \<open>Invariants and concrete inputs\<close>

text \<open>
  The registry states the program can be in: a new registry is empty, and the public
  operations lead from one state to the next, whatever the disk and the clock do.
\<close>

inductive reachable :: "ProjectRegistry \<Rightarrow> bool" where
  reach_new: "reachable \<lparr> projects = [], registryFile = d \<rparr>"
| reach_load: "reachable r \<Longrightarrow> reachable (load r)"
| reach_save: "reachable r \<Longrightarrow> reachable (save e r)"
| reach_add: "reachable r \<Longrightarrow> reachable (addProject e project r)"
| reach_update: "reachable r \<Longrightarrow> reachable (updateIndexStatus e projectPath status metadata r)"
| reach_remove: "reachable r \<Longrightarrow> reachable (removeProject e projectPath r)"

text \<open>Every entry of the registry is stored under its own path, and no path twice.\<close>

definition keyed_by_path :: "ProjectMetadata jsmap \<Rightarrow> bool" where
  "keyed_by_path m = (distinct (map fst m) \<and> (\<forall>kv \<in> set m. path (snd kv) = fst kv))"

text \<open>
  The flag and the suspended batches agree: at most one batch, the flag is set exactly
  while there is one, and a suspended batch has a project to index.
\<close>

definition single_flight :: "ProjectIndexer \<Rightarrow> bool" where
  "single_flight ix =
     (length (batches ix) \<le> 1 \<and> (isIndexing ix \<longleftrightarrow> batches ix \<noteq> [])
      \<and> (\<forall>b \<in> set (batches ix). b \<noteq> []))"

text \<open>Concrete inputs for the instances below.\<close>

definition sampleProject :: "string \<Rightarrow> DiscoveredProject" where
  "sampleProject p = \<lparr> path = p, name = basename p, language = Go, ide = NoIde, hasGit = False,
                       lastModified = 0, indicators = [''go.mod''] \<rparr>"

definition sampleMetadata ::
    "string \<Rightarrow> int option \<Rightarrow> indexStatus \<Rightarrow> string option \<Rightarrow> ProjectMetadata" where
  "sampleMetadata p li st er =
     \<lparr> path = p, name = basename p, language = Go, ide = NoIde, hasGit = False,
       lastModified = 0, indicators = [''go.mod''],
       lastIndexed = li, indexStatus = st, symbolCount = Some 3, testCount = Some 1,
       docCount = Some 2, error = er \<rparr>"

definition emptyRegistry :: ProjectRegistry where
  "emptyRegistry = \<lparr> projects = [], registryFile = None \<rparr>"

definition sampleIo :: "int \<Rightarrow> io" where
  "sampleIo t = \<lparr> now = t, write_result = WriteOk \<rparr>"

text \<open>A home directory with a mixed project \<open>a\<close> and a folder \<open>b\<close> of loose source files.\<close>

definition sampleFs :: fsys where
  "sampleFs =
     \<lparr> readdir = (\<lambda>p.
          if p = ''/h'' then Some [Dirent ''a'' True, Dirent ''b'' True, Dirent ''notes.txt'' False]
          else if p = ''/h/a''
            then Some [Dirent ''go.mod'' False, Dirent ''main.go'' False, Dirent ''util.go'' False,
                       Dirent ''script.py'' False]
          else if p = ''/h/b'' then Some [Dirent ''main.go'' False, Dirent ''app.py'' False]
          else None),
       realpath_cmd = (\<lambda>p. Some (p @ [CHR 0x0A])),
       stat_mtime = (\<lambda>p. Some 42.5),
       find_cmd = (\<lambda>h. None),
       clock = 7 \<rparr>"

text \<open>An analyzer whose every call rejects, and one that reports a symbol and no test.\<close>

definition rejectingAnalyzer :: analyzer where
  "rejectingAnalyzer =
     \<lparr> find_symbols = (\<lambda>p. Rejects (ErrorObj ''analyzer crashed'')),
       find_tests = (\<lambda>p. Rejects (ErrorObj ''analyzer crashed'')) \<rparr>"

definition healthyAnalyzer :: analyzer where
  "healthyAnalyzer =
     \<lparr> find_symbols = (\<lambda>p. Items [\<lparr> sym_name = ''main'', sym_type = ''function'',
                                      sym_file = ''main.go'', sym_line = ''3'',
                                      sym_signature = None \<rparr>]),
       find_tests = (\<lambda>p. Items []) \<rparr>"

text \<open>
  An analyzer that answers with an object \<open>{symbols_found, symbols}\<close>, as the analyzers of
  the repository do: the object has no \<open>length\<close> and no \<open>map\<close>, so the count is 0 and
  building the documents throws a \<open>TypeError\<close>.
\<close>

definition objectAnalyzer :: analyzer where
  "objectAnalyzer =
     \<lparr> find_symbols = (\<lambda>p. BadItems 0 (ErrorObj ''symbols.map is not a function'')),
       find_tests = (\<lambda>p. BadItems 0 (ErrorObj ''tests.map is not a function'')) \<rparr>"

definition sampleEnv :: "analyzer \<Rightarrow> int \<Rightarrow> env" where
  "sampleEnv an t =
     \<lparr> goAnalyzer = an, pythonAnalyzer = an, nodeAnalyzer = an,
       addDocuments_rejects = (\<lambda>ds. None),
       doc_stat = (\<lambda>p. None), doc_readFile = (\<lambda>p. None), doc_readdir = (\<lambda>p. None),
       io_indexing = sampleIo t, io_done = sampleIo (t + 1000) \<rparr>"

definition watching :: ProjectFileWatcher where
  "watching = watchProject True (sampleMetadata ''/p'' None Pending None) newWatcher"

definition staleRegistry :: ProjectRegistry where
  "staleRegistry =
     \<lparr> projects =
         [(''/a'', sampleMetadata ''/a'' (Some (100000000 - 25 * 60 * 60 * 1000)) Completed None),
          (''/b'', sampleMetadata ''/b'' (Some (100000000 - 60 * 60 * 1000)) Completed None),
          (''/c'', sampleMetadata ''/c'' (Some (100000000 - 60 * 60 * 1000)) Failed (Some ''boom''))],
       registryFile = None \<rparr>"

definition failedRegistry :: ProjectRegistry where
  "failedRegistry =
     updateIndexStatus (sampleIo 10) ''/p'' Failed
       (Some \<lparr> patch_symbolCount = NoKey, patch_testCount = NoKey, patch_docCount = NoKey,
               patch_error = Key (Some ''boom'') \<rparr>)
       (addProject (sampleIo 1) (sampleProject ''/p'') emptyRegistry)"

text \<open>The entry of a project that was discovered and never indexed.\<close>

definition pendingMetadata :: "string \<Rightarrow> ProjectMetadata" where
  "pendingMetadata p =
     \<lparr> path = p, name = basename p, language = Go, ide = NoIde, hasGit = False,
       lastModified = 0, indicators = [''go.mod''],
       lastIndexed = None, indexStatus = Pending, symbolCount = None, testCount = None,
       docCount = None, error = None \<rparr>"

text \<open>Two projects are discovered and a batch is requested.\<close>

definition batchStarted :: ProjectIndexer where
  "batchStarted =
     run [AddProject (sampleIo 1) (sampleProject ''/a''),
          AddProject (sampleIo 2) (sampleProject ''/b''),
          CallBatch 5] (newIndexer emptyRegistry)"


text \<open>
  For the debounce argument: the armed timeouts of one project; what holds of handles
  in every state of the watcher (handles are fresh and never shared, a recorded handle
  belongs to a timeout of the same project, a watcher is stored under the path of its
  project); a notification that passes both filters; a run of deliveries in which every
  delivery comes before the timeout armed by the last qualifying change of the project is
  due, and in which no reindex of the project settles; the time of that last change.
\<close>

definition timersFor :: "string \<Rightarrow> ProjectFileWatcher \<Rightarrow> (nat \<times> string \<times> int) list" where
  "timersFor k w = filter (\<lambda>tm. fst (snd tm) = k) (timers w)"

definition watcher_inv :: "ProjectFileWatcher \<Rightarrow> bool" where
  "watcher_inv w =
     (distinct (map fst (timers w))
      \<and> (\<forall>tm \<in> set (timers w). fst tm < nextHandle w)
      \<and> (\<forall>q h. map_get (debounceTimers w) q = Some h \<longrightarrow>
             h < nextHandle w \<and> (\<forall>tm \<in> set (timers w). fst tm = h \<longrightarrow> fst (snd tm) = q))
      \<and> (\<forall>q pr. map_get (watchers w) q = Some pr \<longrightarrow> path pr = q))"

fun qualifying_change :: "string \<Rightarrow> language \<Rightarrow> watch_event \<Rightarrow> bool" where
  "qualifying_change k l (Change q (Some f)) =
     (q = k \<and> f \<noteq> [] \<and> \<not> shouldIgnoreFile f \<and> isSourceFile f l)"
| "qualifying_change k l (Change q None) = False"
| "qualifying_change k l (Settled q) = False"
| "qualifying_change k l Tick = False"

fun within_burst ::
    "string \<Rightarrow> language \<Rightarrow> int option \<Rightarrow> (int \<times> watch_event) list \<Rightarrow> bool" where
  "within_burst k l lst [] = True"
| "within_burst k l lst ((t, ev) # evs) =
     ((case lst of Some t0 \<Rightarrow> t < t0 + debounceDelay | None \<Rightarrow> True)
      \<and> ev \<noteq> Settled k
      \<and> within_burst k l (if qualifying_change k l ev then Some t else lst) evs)"

fun last_change ::
    "string \<Rightarrow> language \<Rightarrow> int option \<Rightarrow> (int \<times> watch_event) list \<Rightarrow> int option" where
  "last_change k l lst [] = lst"
| "last_change k l lst ((t, ev) # evs) =
     last_change k l (if qualifying_change k l ev then Some t else lst) evs"

text \<open>
  After a qualifying change at \<open>t0\<close> exactly one timeout of the project is armed, due at
  \<open>t0 + debounceDelay\<close>, and \<open>debounceTimers\<close> records its handle; before any, none is armed.
\<close>

definition armed_for :: "string \<Rightarrow> int option \<Rightarrow> ProjectFileWatcher \<Rightarrow> bool" where
  "armed_for k lst w =
     (case lst of
        None \<Rightarrow> timersFor k w = []
      | Some t0 \<Rightarrow> (\<exists>h. timersFor k w = [(h, k, t0 + debounceDelay)]
                        \<and> map_get (debounceTimers w) k = Some h))"

section \<open>Scanner: classification and rejection\<close>

lemma activeLanguages_sum:
  "activeLanguages sc =
     (if go sc > 0 then 1 else 0) + (if python sc > 0 then 1 else 0)
     + (if nodejs sc > 0 then 1 else 0)"
  by (simp add: activeLanguages_def)

lemma determineLanguage_None:
  "determineLanguage sc = None \<longleftrightarrow> go sc = 0 \<and> python sc = 0 \<and> nodejs sc = 0"
  by (auto simp: determineLanguage_def Let_def)

lemma analyzeDirectory_Some:
  "analyzeDirectory fs dir entries = Some p \<Longrightarrow>
     path p = dir \<and> indicators p = collectIndicators entries \<and> collectIndicators entries \<noteq> []
     \<and> determineLanguage (languageScores entries) = Some (language p)"
  by (auto simp: analyzeDirectory_def split: option.splits if_splits)

lemma analyzeDirectory_accepts:
  "analyzeDirectory fs dir entries \<noteq> None \<longleftrightarrow>
     determineLanguage (languageScores entries) \<noteq> None \<and> collectIndicators entries \<noteq> []"
  by (auto simp: analyzeDirectory_def split: option.splits)

text \<open>
  C3.  When more than one language has a positive score, the language decided for the
  directory is \<open>mixed\<close>, whatever the scores are and even when one of them exceeds the
  others; when exactly one language has a positive score, that language is decided.
  The language of every project \<open>analyzeDirectory\<close> returns is the one decided thus, and
  it returns a project whenever a language was decided and an indicator was collected.
\<close>

theorem analyzeDirectory_classification:
  "(1 < activeLanguages (languageScores entries) \<longrightarrow>
      determineLanguage (languageScores entries) = Some Mixed)
   \<and> (activeLanguages (languageScores entries) = 1 \<and> 0 < go (languageScores entries) \<longrightarrow>
      determineLanguage (languageScores entries) = Some Go)
   \<and> (activeLanguages (languageScores entries) = 1 \<and> 0 < python (languageScores entries) \<longrightarrow>
      determineLanguage (languageScores entries) = Some Python)
   \<and> (activeLanguages (languageScores entries) = 1 \<and> 0 < nodejs (languageScores entries) \<longrightarrow>
      determineLanguage (languageScores entries) = Some Nodejs)
   \<and> (\<forall>p. analyzeDirectory fs dir entries = Some p \<longrightarrow>
          determineLanguage (languageScores entries) = Some (language p))
   \<and> (determineLanguage (languageScores entries) \<noteq> None \<and> collectIndicators entries \<noteq> [] \<longrightarrow>
          analyzeDirectory fs dir entries \<noteq> None)"
proof -
  have decided:
    "(1 < activeLanguages (languageScores entries) \<longrightarrow>
        determineLanguage (languageScores entries) = Some Mixed)
     \<and> (activeLanguages (languageScores entries) = 1 \<and> 0 < go (languageScores entries) \<longrightarrow>
        determineLanguage (languageScores entries) = Some Go)
     \<and> (activeLanguages (languageScores entries) = 1 \<and> 0 < python (languageScores entries) \<longrightarrow>
        determineLanguage (languageScores entries) = Some Python)
     \<and> (activeLanguages (languageScores entries) = 1 \<and> 0 < nodejs (languageScores entries) \<longrightarrow>
        determineLanguage (languageScores entries) = Some Nodejs)"
    by (auto simp: determineLanguage_def Let_def activeLanguages_sum split: if_splits)
  have returned: "\<forall>p. analyzeDirectory fs dir entries = Some p \<longrightarrow>
          determineLanguage (languageScores entries) = Some (language p)"
    by (auto dest: analyzeDirectory_Some)
  have accepted:
    "determineLanguage (languageScores entries) \<noteq> None \<and> collectIndicators entries \<noteq> [] \<longrightarrow>
          analyzeDirectory fs dir entries \<noteq> None"
    by (simp only: analyzeDirectory_accepts) simp
  from decided returned accepted show ?thesis by blast
qed

text \<open>
  An instance: a Go manifest, two Go files and one Python file.  The Go score is 12, the
  Python score is 1, and the project is mixed.
\<close>

theorem analyzeDirectory_classification_witness:
  "1 < activeLanguages (languageScores [''go.mod'', ''main.go'', ''util.go'', ''script.py''])
   \<and> determineLanguage (languageScores [''go.mod'', ''main.go'', ''util.go'', ''script.py''])
       = Some Mixed
   \<and> go (languageScores [''go.mod'', ''main.go'', ''util.go'', ''script.py'']) = 12
   \<and> python (languageScores [''go.mod'', ''main.go'', ''util.go'', ''script.py'']) = 1
   \<and> analyzeDirectory sampleFs ''/h/a'' [''go.mod'', ''main.go'', ''util.go'', ''script.py'']
       = Some \<lparr> path = ''/h/a'', name = ''a'', language = Mixed, ide = NoIde, hasGit = False,
                 lastModified = 42.5, indicators = [''go.mod''] \<rparr>"
proof -
  let ?es = "[''go.mod'', ''main.go'', ''util.go'', ''script.py'']"
  have act: "1 < activeLanguages (languageScores ?es)"
    by code_simp
  have mixed: "determineLanguage (languageScores ?es) = Some Mixed"
    by (rule analyzeDirectory_classification
               [of ?es sampleFs "''/h/a''", THEN conjunct1, THEN mp, OF act])
  have rest: "go (languageScores ?es) = 12
   \<and> python (languageScores ?es) = 1
   \<and> analyzeDirectory sampleFs ''/h/a'' ?es
       = Some \<lparr> path = ''/h/a'', name = ''a'', language = Mixed, ide = NoIde, hasGit = False,
                 lastModified = 42.5, indicators = [''go.mod''] \<rparr>"
    by code_simp
  show ?thesis
    by (rule conjI [OF act conjI [OF mixed rest]])
qed

lemma scan_reports_analyzed:
  "\<forall>p \<in> set (fst (scanDirectory fs dir maxDepth currentDepth seen)).
       \<exists>es. readdir fs (path p) = Some es
            \<and> analyzeDirectory fs (path p) (map entry_name es) = Some p"
  "\<forall>p \<in> set (fst (scanEntries fs dir maxDepth currentDepth ents seen)).
       \<exists>es. readdir fs (path p) = Some es
            \<and> analyzeDirectory fs (path p) (map entry_name es) = Some p"
proof (induction fs dir maxDepth currentDepth seen and fs dir maxDepth currentDepth ents seen
       rule: scanDirectory_scanEntries.induct)
  case (1 fs dir maxDepth currentDepth seen)
  then show ?case
    by (auto split: option.splits dest: analyzeDirectory_Some)
next
  case (2 fs dir maxDepth currentDepth seen)
  then show ?case by simp
next
  case (3 fs dir maxDepth currentDepth e es seen)
  then show ?case
    by (auto split: prod.splits)
qed

lemma scanPaths_reports_analyzed:
  "p \<in> set (scanPaths fs maxDepth ps seen) \<Longrightarrow>
     \<exists>es. readdir fs (path p) = Some es
          \<and> analyzeDirectory fs (path p) (map entry_name es) = Some p"
proof (induction ps arbitrary: seen)
  case Nil
  then show ?case by simp
next
  case (Cons a ps)
  obtain found seen' where sd: "scanDirectory fs a maxDepth 0 seen = (found, seen')"
    by (cases "scanDirectory fs a maxDepth 0 seen")
  from Cons.prems sd have "p \<in> set found \<or> p \<in> set (scanPaths fs maxDepth ps seen')"
    by auto
  then show ?case
  proof
    assume "p \<in> set found"
    with sd scan_reports_analyzed(1)[of fs a maxDepth 0 seen] show ?thesis by simp
  next
    assume "p \<in> set (scanPaths fs maxDepth ps seen')"
    then show ?thesis by (rule Cons.IH)
  qed
qed

lemma discoverProjects_reports_analyzed:
  "p \<in> set (discoverProjects fs homeDir maxDepth) \<Longrightarrow>
     \<exists>es. readdir fs (path p) = Some es
          \<and> analyzeDirectory fs (path p) (map entry_name es) = Some p"
  unfolding discoverProjects_def by (rule scanPaths_reports_analyzed)

lemma analyzed_is_reported:
  "readdir fs d = Some es \<Longrightarrow> analyzeDirectory fs d (map entry_name es) = Some p \<Longrightarrow>
     \<exists>es'. readdir fs (path p) = Some es'
           \<and> analyzeDirectory fs (path p) (map entry_name es') = Some p"
  using analyzeDirectory_Some[of fs d "map entry_name es" p] by auto

lemma quickScanMarkers_reports_analyzed:
  "quickScanMarkers fs markers = Some found \<Longrightarrow> p \<in> set found \<Longrightarrow>
     \<exists>es. readdir fs (path p) = Some es
          \<and> analyzeDirectory fs (path p) (map entry_name es) = Some p"
proof (induction markers arbitrary: found)
  case Nil
  then show ?case by simp
next
  case (Cons marker markers)
  then show ?case
    by (auto split: option.splits intro: analyzed_is_reported)
qed

lemma quickDiscoverProjects_reports_analyzed:
  "p \<in> set (quickDiscoverProjects fs homeDir) \<Longrightarrow>
     \<exists>es. readdir fs (path p) = Some es
          \<and> analyzeDirectory fs (path p) (map entry_name es) = Some p"
  unfolding quickDiscoverProjects_def
  by (auto split: option.splits
      dest: discoverProjects_reports_analyzed quickScanMarkers_reports_analyzed)

text \<open>
  C7.  A directory whose scores are all zero, or for which no indicator was collected,
  makes \<open>analyzeDirectory\<close> return null.  Both scans report only what \<open>analyzeDirectory\<close>
  returned for the directory itself: every reported project has an indicator, and a
  directory that \<open>analyzeDirectory\<close> rejects is the path of no reported project.
\<close>

theorem zero_indicators_never_project:
  "((go (languageScores entries) = 0 \<and> python (languageScores entries) = 0
       \<and> nodejs (languageScores entries) = 0) \<or> collectIndicators entries = []
      \<longrightarrow> analyzeDirectory fs dir entries = None)
   \<and> (\<forall>p \<in> set (discoverProjects fs homeDir maxDepth) \<union> set (quickDiscoverProjects fs homeDir).
         indicators p \<noteq> []
         \<and> (\<exists>es. readdir fs (path p) = Some es
                \<and> analyzeDirectory fs (path p) (map entry_name es) = Some p))
   \<and> (\<forall>d es. readdir fs d = Some es \<and> analyzeDirectory fs d (map entry_name es) = None
         \<longrightarrow> d \<notin> path ` (set (discoverProjects fs homeDir maxDepth)
                           \<union> set (quickDiscoverProjects fs homeDir)))"
proof (intro conjI)
  show "(go (languageScores entries) = 0 \<and> python (languageScores entries) = 0
       \<and> nodejs (languageScores entries) = 0) \<or> collectIndicators entries = []
      \<longrightarrow> analyzeDirectory fs dir entries = None"
    by (auto simp: analyzeDirectory_def determineLanguage_None[symmetric] split: option.splits)
next
  have analyzed: "\<exists>es. readdir fs (path p) = Some es
                \<and> analyzeDirectory fs (path p) (map entry_name es) = Some p"
    if "p \<in> set (discoverProjects fs homeDir maxDepth) \<union> set (quickDiscoverProjects fs homeDir)"
    for p
    using that discoverProjects_reports_analyzed quickDiscoverProjects_reports_analyzed by blast
  show "\<forall>p \<in> set (discoverProjects fs homeDir maxDepth) \<union> set (quickDiscoverProjects fs homeDir).
         indicators p \<noteq> []
         \<and> (\<exists>es. readdir fs (path p) = Some es
                \<and> analyzeDirectory fs (path p) (map entry_name es) = Some p)"
  proof
    fix p
    assume "p \<in> set (discoverProjects fs homeDir maxDepth) \<union> set (quickDiscoverProjects fs homeDir)"
    from analyzed[OF this] obtain es where es: "readdir fs (path p) = Some es"
        "analyzeDirectory fs (path p) (map entry_name es) = Some p" by blast
    from analyzeDirectory_Some[OF es(2)] have "indicators p \<noteq> []" by simp
    with es show "indicators p \<noteq> []
         \<and> (\<exists>es. readdir fs (path p) = Some es
                \<and> analyzeDirectory fs (path p) (map entry_name es) = Some p)" by blast
  qed
  show "\<forall>d es. readdir fs d = Some es \<and> analyzeDirectory fs d (map entry_name es) = None
         \<longrightarrow> d \<notin> path ` (set (discoverProjects fs homeDir maxDepth)
                           \<union> set (quickDiscoverProjects fs homeDir))"
  proof (intro allI impI notI)
    fix d es
    assume a: "readdir fs d = Some es \<and> analyzeDirectory fs d (map entry_name es) = None"
    assume "d \<in> path ` (set (discoverProjects fs homeDir maxDepth)
                           \<union> set (quickDiscoverProjects fs homeDir))"
    then obtain p where
      p: "p \<in> set (discoverProjects fs homeDir maxDepth) \<union> set (quickDiscoverProjects fs homeDir)"
      and d: "d = path p" by blast
    from analyzed[OF p] d a show False by auto
  qed
qed

text \<open>
  An instance: the folder \<open>/h/b\<close> holds a Go file and a Python file and nothing else, so
  no indicator is collected; it is rejected and neither scan of \<open>/h\<close> reports it.
\<close>

theorem zero_indicators_never_project_witness:
  "collectIndicators [''main.go'', ''app.py''] = []
   \<and> analyzeDirectory sampleFs ''/h/b'' [''main.go'', ''app.py''] = None
   \<and> readdir sampleFs ''/h/b'' = Some [Dirent ''main.go'' False, Dirent ''app.py'' False]
   \<and> ''/h/b'' \<notin> path ` (set (discoverProjects sampleFs ''/h'' 3)
                         \<union> set (quickDiscoverProjects sampleFs ''/h''))"
proof -
  have ind: "collectIndicators [''main.go'', ''app.py''] = []"
    by code_simp
  have rd: "readdir sampleFs ''/h/b'' = Some [Dirent ''main.go'' False, Dirent ''app.py'' False]"
    by code_simp
  note inst = zero_indicators_never_project
               [of "[''main.go'', ''app.py'']" sampleFs "''/h/b''" "''/h''" 3]
  have rej: "analyzeDirectory sampleFs ''/h/b'' [''main.go'', ''app.py''] = None"
    by (rule inst [THEN conjunct1, THEN mp, OF disjI2, OF ind])
  have names: "map entry_name [Dirent ''main.go'' False, Dirent ''app.py'' False]
                 = [''main.go'', ''app.py'']"
    by simp
  have out: "''/h/b'' \<notin> path ` (set (discoverProjects sampleFs ''/h'' 3)
                           \<union> set (quickDiscoverProjects sampleFs ''/h''))"
    by (rule inst [THEN conjunct2, THEN conjunct2, THEN spec, THEN spec, THEN mp,
                   OF conjI, OF rd rej [folded names]])
  show ?thesis
    by (rule conjI [OF ind conjI [OF rej conjI [OF rd out]]])
qed

section \<open>Registry: the map, persistence, staleness, upsert\<close>

lemma map_get_map_set:
  "map_get (map_set k v m) k' = (if k' = k then Some v else map_get m k')"
  by (induction m) (auto simp: map_get_def)

lemma keys_map_set:
  "map fst (map_set k v m) = (if k \<in> fst ` set m then map fst m else map fst m @ [k])"
  by (induction m) (force split: if_splits)+

lemma set_map_set: "set (map_set k v m) \<subseteq> insert (k, v) (set m)"
  by (induction m) (auto split: if_splits)

lemma map_set_fresh: "k \<notin> fst ` set m \<Longrightarrow> map_set k v m = m @ [(k, v)]"
  by (induction m) auto

lemma map_set_twice: "map_set k v (map_set k v' m) = map_set k v m"
  by (induction m) auto

lemma map_get_in_values: "map_get m k = Some v \<Longrightarrow> v \<in> set (map_values m)"
  unfolding map_get_def map_values_def by (force dest: map_of_SomeD)

lemma keyed_map_set: "keyed_by_path m \<Longrightarrow> path v = k \<Longrightarrow> keyed_by_path (map_set k v m)"
  unfolding keyed_by_path_def using set_map_set[of k v m]
  by (auto simp: keys_map_set)

lemma keyed_map_delete: "keyed_by_path m \<Longrightarrow> keyed_by_path (map_delete k m)"
  unfolding keyed_by_path_def map_delete_def by (auto simp: distinct_map_filter)

lemma keyed_load_projects: "keyed_by_path m \<Longrightarrow> keyed_by_path (load_projects ps m)"
  by (induction ps arbitrary: m) (auto intro: keyed_map_set)

lemma load_projects_fresh:
  "distinct (map path ps) \<Longrightarrow> path ` set ps \<inter> fst ` set m = {} \<Longrightarrow>
     load_projects ps m = m @ map (\<lambda>p. (path p, p)) ps"
proof (induction ps arbitrary: m)
  case Nil
  then show ?case by simp
next
  case (Cons p ps)
  have fresh: "path p \<notin> fst ` set m" using Cons.prems(2) by auto
  have "load_projects (p # ps) m = load_projects ps (m @ [(path p, p)])"
    by (simp add: map_set_fresh[OF fresh])
  also have "\<dots> = (m @ [(path p, p)]) @ map (\<lambda>p. (path p, p)) ps"
    using Cons.prems by (intro Cons.IH) auto
  finally show ?case by simp
qed

lemma load_projects_values:
  assumes "keyed_by_path m"
  shows "load_projects (map_values m) [] = m"
proof -
  have pairs: "map (\<lambda>p. (path p, p)) (map snd m) = m"
    using assms unfolding keyed_by_path_def by (induction m) auto
  have keys: "map path (map snd m) = map fst m"
    using assms unfolding keyed_by_path_def by (induction m) auto
  have "distinct (map fst m)"
    using assms unfolding keyed_by_path_def by simp
  then have "distinct (map path (map_values m))"
    unfolding map_values_def keys .
  then have "load_projects (map_values m) [] = [] @ map (\<lambda>p. (path p, p)) (map_values m)"
    by (intro load_projects_fresh) auto
  with pairs show ?thesis by (simp add: map_values_def)
qed

lemma projects_save [simp]: "projects (save e r) = projects r"
  by (simp add: save_def split: write_outcome.splits)

lemma path_objectAssign [simp]: "path (objectAssign p m) = path p"
  by (simp add: objectAssign_def)

lemma reachable_keyed: "reachable r \<Longrightarrow> keyed_by_path (projects r)"
proof (induction rule: reachable.induct)
  case (reach_new d)
  then show ?case by (simp add: keyed_by_path_def)
next
  case (reach_load r)
  then show ?case
    by (auto simp: load_def keyed_by_path_def[of "[]"] intro!: keyed_load_projects
             split: option.splits)
next
  case (reach_save r e)
  then show ?case by simp
next
  case (reach_add r e project)
  then show ?case by (auto simp: addProject_def Let_def intro!: keyed_map_set)
next
  case (reach_update r e projectPath status metadata)
  have "path p = projectPath" if "map_get (projects r) projectPath = Some p" for p
    using that reach_update.IH unfolding keyed_by_path_def map_get_def
    by (auto dest!: map_of_SomeD)
  with reach_update show ?case
    by (auto simp: updateIndexStatus_def Let_def intro!: keyed_map_set split: option.splits)
next
  case (reach_remove r e projectPath)
  then show ?case by (auto simp: removeProject_def intro: keyed_map_delete)
qed

lemma save_failure_keeps_memory:
  "write_result e = WriteFails d \<Longrightarrow> save e r = r\<lparr>registryFile := d\<rparr>"
  by (simp add: save_def)

text \<open>
  C9.  In every state the registry can reach, after a \<open>save\<close> whose write succeeds, a
  \<open>load\<close> of the file it wrote gives back the entries that were saved, under the same
  paths, in the same order and equal in every field.  This holds whatever the registry
  that loads holds in memory before, be it the one that saved or a new one after a
  restart: the entries come from the file.  The file written holds the schema version,
  the time of the write and all entries, whatever the file held before.
\<close>

theorem save_load_roundtrip:
  assumes "reachable r" and "write_result e = WriteOk"
  shows "projects (load \<lparr> projects = inMemory, registryFile = registryFile (save e r) \<rparr>)
           = projects r
         \<and> projects (load (save e r)) = projects r
         \<and> registryFile (save e r) = Some \<lparr> version = ''1.0'', lastUpdated = now e,
                                             snap_projects = Some (getAllProjects r) \<rparr>"
  using load_projects_values[OF reachable_keyed[OF assms(1)]] assms(2)
  by (simp add: load_def save_def getAllProjects_def)

text \<open>
  An instance: a registry with the one project \<open>/p\<close> is saved; a registry that holds the
  three other projects \<open>/a\<close>, \<open>/b\<close> and \<open>/c\<close> in memory loads the file and then holds \<open>/p\<close>
  alone, as it was saved.
\<close>

theorem save_load_roundtrip_witness:
  "reachable (addProject (sampleIo 1) (sampleProject ''/p'') emptyRegistry)
   \<and> write_result (sampleIo 2) = WriteOk
   \<and> projects (load \<lparr> projects = projects staleRegistry,
                        registryFile = registryFile
                          (save (sampleIo 2)
                             (addProject (sampleIo 1) (sampleProject ''/p'') emptyRegistry)) \<rparr>)
       = projects (addProject (sampleIo 1) (sampleProject ''/p'') emptyRegistry)
   \<and> projects (addProject (sampleIo 1) (sampleProject ''/p'') emptyRegistry)
       = [(''/p'', pendingMetadata ''/p'')]
   \<and> map fst (projects staleRegistry) = [''/a'', ''/b'', ''/c'']"
proof -
  have r: "reachable (addProject (sampleIo 1) (sampleProject ''/p'') emptyRegistry)"
    unfolding emptyRegistry_def by (rule reach_add [OF reach_new])
  have w: "write_result (sampleIo 2) = WriteOk"
    by (simp add: sampleIo_def)
  have saved: "projects (addProject (sampleIo 1) (sampleProject ''/p'') emptyRegistry)
                 = [(''/p'', pendingMetadata ''/p'')]"
    by code_simp
  have other: "map fst (projects staleRegistry) = [''/a'', ''/b'', ''/c'']"
    by code_simp
  show ?thesis
    by (rule conjI [OF r conjI [OF w conjI
          [OF save_load_roundtrip [OF r w, of "projects staleRegistry", THEN conjunct1]
              conjI [OF saved other]]]])
qed






text \<open>
  C6.  The claim counts the last error message among the fields that \<open>addProject\<close> keeps.
  The code keeps five fields of the existing entry and drops \<open>error\<close>: a project that failed
  with the message \<open>boom\<close> is, after re-discovery, still failed, with its time and counts,
  and without a message.
\<close>

theorem addProject_drops_error:
  "getProject
     (addProject e (sampleProject ''/p'')
        \<lparr> projects = [(''/p'', sampleMetadata ''/p'' (Some 5) Failed (Some ''boom''))],
          registryFile = None \<rparr>) ''/p''
   = Some (sampleMetadata ''/p'' (Some 5) Failed None)"
  by (simp add: getProject_def addProject_def map_get_def sampleMetadata_def sampleProject_def
        Let_def)

text \<open>
  What \<open>addProject\<close> does for any registry: the entry under the project's path gets the
  discovered fields, the five kept fields of the entry that was there (or those of a new
  entry), and no error.  A second call with the same project changes nothing.
\<close>

lemma addProject_lifecycle:
  "\<exists>y. getProject (addProject e project r) (path project) = Some y
       \<and> path y = path project \<and> name y = name project \<and> language y = language project
       \<and> ide y = ide project \<and> hasGit y = hasGit project
       \<and> lastModified y = lastModified project \<and> indicators y = indicators project
       \<and> error y = None
       \<and> (case getProject r (path project) of
             None \<Rightarrow> indexStatus y = Pending \<and> lastIndexed y = None \<and> symbolCount y = None
                       \<and> testCount y = None \<and> docCount y = None
           | Some x \<Rightarrow> indexStatus y = indexStatus x \<and> lastIndexed y = lastIndexed x
                       \<and> symbolCount y = symbolCount x \<and> testCount y = testCount x
                       \<and> docCount y = docCount x)"
  by (simp add: getProject_def addProject_def Let_def map_get_map_set split: option.splits)

lemma addProject_idempotent:
  "projects (addProject e2 project (addProject e1 project r)) = projects (addProject e1 project r)"
  by (simp add: addProject_def Let_def map_get_map_set map_set_twice split: option.splits)

text \<open>
  C10.  When a registered project carries an error message, the update that marks it
  completed with its three counts leaves the message in place: afterwards the entry is
  completed, \<open>lastIndexed\<close> is the time of the update, the counts are the new ones, the
  message is the old one, and \<open>list_projects\<close> shows that entry with that message.
\<close>

theorem completed_keeps_stale_error:
  assumes "getProject r projectPath = Some p" and "error p = Some msg"
  shows "\<exists>p'. getProject
                (updateIndexStatus e projectPath Completed
                   (Some \<lparr> patch_symbolCount = Key (Some s), patch_testCount = Key (Some t),
                           patch_docCount = Key (Some d), patch_error = NoKey \<rparr>) r) projectPath
              = Some p'
            \<and> error p' = Some msg \<and> indexStatus p' = Completed \<and> lastIndexed p' = Some (now e)
            \<and> symbolCount p' = Some s \<and> testCount p' = Some t \<and> docCount p' = Some d
            \<and> projectViewOf p' \<in> set (snd (listProjects
                  \<lparr> arg_language = None, arg_status = None, arg_ide = None \<rparr>
                  (updateIndexStatus e projectPath Completed
                     (Some \<lparr> patch_symbolCount = Key (Some s), patch_testCount = Key (Some t),
                             patch_docCount = Key (Some d), patch_error = NoKey \<rparr>) r)))
            \<and> view_error (projectViewOf p') = Some msg
            \<and> view_indexStatus (projectViewOf p') = Completed"
proof -
  let ?r' = "updateIndexStatus e projectPath Completed
                   (Some \<lparr> patch_symbolCount = Key (Some s), patch_testCount = Key (Some t),
                           patch_docCount = Key (Some d), patch_error = NoKey \<rparr>) r"
  let ?p' = "objectAssign (p\<lparr>indexStatus := Completed, lastIndexed := Some (now e)\<rparr>)
               \<lparr> patch_symbolCount = Key (Some s), patch_testCount = Key (Some t),
                 patch_docCount = Key (Some d), patch_error = NoKey \<rparr>"
  have get: "getProject ?r' projectPath = Some ?p'"
    using assms(1) by (simp add: getProject_def updateIndexStatus_def Let_def map_get_map_set)
  then have "?p' \<in> set (getAllProjects ?r')"
    unfolding getProject_def getAllProjects_def by (rule map_get_in_values)
  then have "projectViewOf ?p' \<in> set (snd (listProjects
                  \<lparr> arg_language = None, arg_status = None, arg_ide = None \<rparr> ?r'))"
    by (simp add: listProjects_def Let_def)
  moreover have "error ?p' = Some msg" "indexStatus ?p' = Completed"
     "lastIndexed ?p' = Some (now e)"
     "symbolCount ?p' = Some s" "testCount ?p' = Some t" "docCount ?p' = Some d"
    using assms(2) by (simp_all add: objectAssign_def assignKey_def)
  ultimately show ?thesis using get
    by (simp add: projectViewOf_def)
qed


text \<open>
  An instance: a project is discovered, a pass fails with the message \<open>boom\<close>, the next
  pass completes with 4 symbols, 2 tests and 1 document; \<open>list_projects\<close> then shows the
  project completed, with the message \<open>boom\<close>.
\<close>

theorem completed_keeps_stale_error_witness:
  "getProject failedRegistry ''/p''
     = Some ((sampleMetadata ''/p'' None Failed (Some ''boom''))
               \<lparr> symbolCount := None, testCount := None, docCount := None \<rparr>)
   \<and> error ((sampleMetadata ''/p'' None Failed (Some ''boom''))
               \<lparr> symbolCount := None, testCount := None, docCount := None \<rparr>) = Some ''boom''
   \<and> (\<exists>p'. getProject
                (updateIndexStatus (sampleIo 20) ''/p'' Completed
                   (Some \<lparr> patch_symbolCount = Key (Some 4), patch_testCount = Key (Some 2),
                           patch_docCount = Key (Some 1), patch_error = NoKey \<rparr>) failedRegistry) ''/p''
              = Some p'
            \<and> error p' = Some ''boom'' \<and> indexStatus p' = Completed
            \<and> lastIndexed p' = Some (now (sampleIo 20))
            \<and> symbolCount p' = Some 4 \<and> testCount p' = Some 2 \<and> docCount p' = Some 1
            \<and> projectViewOf p' \<in> set (snd (listProjects
                  \<lparr> arg_language = None, arg_status = None, arg_ide = None \<rparr>
                  (updateIndexStatus (sampleIo 20) ''/p'' Completed
                     (Some \<lparr> patch_symbolCount = Key (Some 4), patch_testCount = Key (Some 2),
                             patch_docCount = Key (Some 1), patch_error = NoKey \<rparr>) failedRegistry)))
            \<and> view_error (projectViewOf p') = Some ''boom''
            \<and> view_indexStatus (projectViewOf p') = Completed)"
proof -
  have g: "getProject failedRegistry ''/p''
     = Some ((sampleMetadata ''/p'' None Failed (Some ''boom''))
               \<lparr> symbolCount := None, testCount := None, docCount := None \<rparr>)"
    by code_simp
  have er: "error ((sampleMetadata ''/p'' None Failed (Some ''boom''))
               \<lparr> symbolCount := None, testCount := None, docCount := None \<rparr>) = Some ''boom''"
    by (simp add: sampleMetadata_def)
  show ?thesis
    by (rule conjI [OF g conjI [OF er completed_keeps_stale_error [OF g er]]])
qed

section \<open>Indexer: failures inside a pass, and the single batch\<close>

lemma getProject_updateIndexStatus:
  "getProject (updateIndexStatus e k st md r) k' =
     (if k' = k
      then (case getProject r k of
              None \<Rightarrow> None
            | Some p \<Rightarrow>
                Some (let p2 = (if st = Completed
                                then p\<lparr>indexStatus := st, lastIndexed := Some (now e)\<rparr>
                                else p\<lparr>indexStatus := st\<rparr>)
                      in case md of Some m \<Rightarrow> objectAssign p2 m | None \<Rightarrow> p2))
      else getProject r k')"
  by (auto simp: getProject_def updateIndexStatus_def Let_def map_get_map_set split: option.splits)

lemma indexProject_try_Inr: "\<exists>ix'. indexProject_try e project ix = Inr ix'"
  by (simp add: indexProject_try_def Let_def split: prod.splits)

lemma indexProject_eq:
  "indexProject e project ix =
     ix\<lparr> registry :=
            updateIndexStatus (io_done e) (path project) Completed
              (Some \<lparr> patch_symbolCount = Key (Some (count_symbols (fst (indexByLanguage e project)))),
                      patch_testCount = Key (Some (count_tests (fst (indexByLanguage e project)))),
                      patch_docCount = Key (Some (count_docs (fst (indexByLanguage e project)))),
                      patch_error = NoKey \<rparr>)
              (updateIndexStatus (io_indexing e) (path project) Indexing None (registry ix)),
          calls := calls ix @ snd (indexByLanguage e project) \<rparr>"
  by (simp add: indexProject_def indexProject_try_def Let_def split: prod.splits)

lemma indexProject_frame [simp]:
  "isIndexing (indexProject e project ix) = isIndexing ix"
  "batches (indexProject e project ix) = batches ix"
  by (simp_all add: indexProject_eq)

lemma indexProject_never_failed:
  "getProject (registry ix) (path project) = Some x \<Longrightarrow>
     \<exists>y. getProject (registry (indexProject e project ix)) (path project) = Some y
        \<and> indexStatus y = Completed \<and> error y = error x"
  by (simp add: indexProject_eq getProject_updateIndexStatus objectAssign_def assignKey_def Let_def)

lemma indexWith_Rejects:
  "find_symbols an (path project) = Rejects t \<Longrightarrow>
     indexWith e an toolPrefix idTag lang project =
       (\<lparr>count_symbols = 0, count_tests = 0, count_docs = 0\<rparr>,
        [HandleTool (toolPrefix @ ''_find_symbols'') (path project)])"
  by (simp add: indexWith_def indexFound_def)

text \<open>
  C4.  The claim: when the analyzer call for a project throws, \<open>indexProject\<close> catches the
  exception and marks the project failed with a non-empty error message.  The \<open>catch\<close>
  of \<open>indexProject\<close> is written to do so, but the exception never reaches it: the
  per-language indexer has caught and logged it.  Below, the analyzer call of the Go
  project \<open>/p\<close> rejects with the \<open>Error\<close> \<open>analyzer crashed\<close>, and \<open>indexProject\<close> leaves the
  project completed, with three counts of 0, a fresh \<open>lastIndexed\<close> and no error message.
\<close>

theorem indexProject_analyzer_rejects_completed:
  "find_symbols (goAnalyzer (sampleEnv rejectingAnalyzer 100)) ''/p''
     = Rejects (ErrorObj ''analyzer crashed'')
   \<and> getProject
       (registry (indexProject (sampleEnv rejectingAnalyzer 100) (pendingMetadata ''/p'')
          (newIndexer \<lparr> projects = [(''/p'', pendingMetadata ''/p'')], registryFile = None \<rparr>)))
       ''/p''
     = Some ((pendingMetadata ''/p'')
               \<lparr> lastIndexed := Some 1100, indexStatus := Completed, symbolCount := Some 0,
                 testCount := Some 0, docCount := Some 0, error := None \<rparr>)"
  by code_simp

text \<open>
  The same for every environment, and for a batch.  Whatever the analyzers do, also when
  their calls throw, no exception leaves the \<open>try\<close> block of \<open>indexProject\<close>, and a
  registered project it indexes ends completed with its error field untouched; when the
  first analyzer call of a Go project rejects, its three counts are 0.  A batch of two
  registered projects goes on after the first: both end completed, the batch is over
  and the flag is cleared.
\<close>

lemma batch_never_marks_failed:
  assumes "batches ix = [[a, b]]"
    and "getProject (registry ix) (path a) = Some xa"
    and "getProject (registry ix) (path b) = Some xb"
    and "path a \<noteq> path b"
  shows "(\<exists>ix'. indexProject_try ea a ix = Inr ix')
       \<and> (\<exists>ya yb. getProject (registry (run [ResumeBatch 0 ea, ResumeBatch 0 eb] ix)) (path a) = Some ya
             \<and> indexStatus ya = Completed \<and> error ya = error xa
             \<and> (language a = Go \<and> find_symbols (goAnalyzer ea) (path a) = Rejects t
                  \<longrightarrow> symbolCount ya = Some 0 \<and> testCount ya = Some 0 \<and> docCount ya = Some 0)
             \<and> getProject (registry (run [ResumeBatch 0 ea, ResumeBatch 0 eb] ix)) (path b) = Some yb
             \<and> indexStatus yb = Completed)
       \<and> batches (run [ResumeBatch 0 ea, ResumeBatch 0 eb] ix) = []
       \<and> \<not> isIndexing (run [ResumeBatch 0 ea, ResumeBatch 0 eb] ix)"
proof -
  let ?ix1 = "(indexProject ea a ix)\<lparr>batches := [[b]]\<rparr>"
  let ?ix2 = "(indexProject eb b ?ix1)\<lparr>isIndexing := False, batches := []\<rparr>"
  have s1: "step (ResumeBatch 0 ea) ix = ?ix1"
    using assms(1) by (simp add: indexPendingProjects_resume_def Let_def)
  have s2: "step (ResumeBatch 0 eb) ?ix1 = ?ix2"
    by (simp add: indexPendingProjects_resume_def Let_def)
  have r: "run [ResumeBatch 0 ea, ResumeBatch 0 eb] ix = ?ix2"
    using s1 s2 by simp
  have ga: "getProject (registry ?ix2) (path a) =
      Some (xa\<lparr> indexStatus := Completed, lastIndexed := Some (now (io_done ea)),
                 symbolCount := Some (count_symbols (fst (indexByLanguage ea a))),
                 testCount := Some (count_tests (fst (indexByLanguage ea a))),
                 docCount := Some (count_docs (fst (indexByLanguage ea a))) \<rparr>)"
    using assms(2,4)
    by (simp add: indexProject_eq getProject_updateIndexStatus objectAssign_def assignKey_def Let_def)
  have gb: "getProject (registry ?ix2) (path b) =
      Some (xb\<lparr> indexStatus := Completed, lastIndexed := Some (now (io_done eb)),
                 symbolCount := Some (count_symbols (fst (indexByLanguage eb b))),
                 testCount := Some (count_tests (fst (indexByLanguage eb b))),
                 docCount := Some (count_docs (fst (indexByLanguage eb b))) \<rparr>)"
    using assms(3,4)
    by (simp add: indexProject_eq getProject_updateIndexStatus objectAssign_def assignKey_def Let_def)
  have rej: "fst (indexByLanguage ea a) = \<lparr>count_symbols = 0, count_tests = 0, count_docs = 0\<rparr>"
    if "language a = Go" "find_symbols (goAnalyzer ea) (path a) = Rejects t"
    using that by (simp add: indexByLanguage_def indexGoProject_def indexWith_Rejects)
  show ?thesis
    unfolding r using ga gb rej indexProject_try_Inr[of ea a ix]
    by auto
qed

text \<open>
  An instance: the batch holds \<open>/a\<close> and \<open>/b\<close>; every analyzer call for \<open>/a\<close> rejects, the
  analyzer of \<open>/b\<close> is healthy.
\<close>

lemma batch_never_marks_failed_instance:
  "batches batchStarted = [[pendingMetadata ''/a'', pendingMetadata ''/b'']]
   \<and> getProject (registry batchStarted) (path (pendingMetadata ''/a'')) = Some (pendingMetadata ''/a'')
   \<and> getProject (registry batchStarted) (path (pendingMetadata ''/b'')) = Some (pendingMetadata ''/b'')
   \<and> path (pendingMetadata ''/a'') \<noteq> path (pendingMetadata ''/b'')
   \<and> batches (run [ResumeBatch 0 (sampleEnv rejectingAnalyzer 100),
                    ResumeBatch 0 (sampleEnv healthyAnalyzer 200)] batchStarted) = []
   \<and> \<not> isIndexing (run [ResumeBatch 0 (sampleEnv rejectingAnalyzer 100),
                          ResumeBatch 0 (sampleEnv healthyAnalyzer 200)] batchStarted)
   \<and> map (\<lambda>p. (path p, indexStatus p, error p, symbolCount p))
        (getAllProjects (registry (run [ResumeBatch 0 (sampleEnv rejectingAnalyzer 100),
                                       ResumeBatch 0 (sampleEnv healthyAnalyzer 200)] batchStarted)))
       = [(''/a'', Completed, None, Some 0), (''/b'', Completed, None, Some 1)]"
proof -
  have b: "batches batchStarted = [[pendingMetadata ''/a'', pendingMetadata ''/b'']]"
    by code_simp
  have ga: "getProject (registry batchStarted) (path (pendingMetadata ''/a''))
              = Some (pendingMetadata ''/a'')"
    by code_simp
  have gb: "getProject (registry batchStarted) (path (pendingMetadata ''/b''))
              = Some (pendingMetadata ''/b'')"
    by code_simp
  have ne: "path (pendingMetadata ''/a'') \<noteq> path (pendingMetadata ''/b'')"
    by code_simp
  note inst = batch_never_marks_failed [OF b ga gb ne,
                of "sampleEnv rejectingAnalyzer 100" "sampleEnv healthyAnalyzer 200"]
  have over: "batches (run [ResumeBatch 0 (sampleEnv rejectingAnalyzer 100),
                    ResumeBatch 0 (sampleEnv healthyAnalyzer 200)] batchStarted) = []
   \<and> \<not> isIndexing (run [ResumeBatch 0 (sampleEnv rejectingAnalyzer 100),
                          ResumeBatch 0 (sampleEnv healthyAnalyzer 200)] batchStarted)"
    by (rule inst [THEN conjunct2, THEN conjunct2])
  have ev: "map (\<lambda>p. (path p, indexStatus p, error p, symbolCount p))
        (getAllProjects (registry (run [ResumeBatch 0 (sampleEnv rejectingAnalyzer 100),
                                       ResumeBatch 0 (sampleEnv healthyAnalyzer 200)] batchStarted)))
       = [(''/a'', Completed, None, Some 0), (''/b'', Completed, None, Some 1)]"
    by code_simp
  show ?thesis
    by (rule conjI [OF b conjI [OF ga conjI [OF gb conjI [OF ne
          conjI [OF over [THEN conjunct1] conjI [OF over [THEN conjunct2] ev]]]]]])
qed

text \<open>
  The answer of the repository's own analyzers ends the block the same way: the project
  is completed with counts of 0 and no error, and only the symbol tool was called.
\<close>

lemma indexProject_object_answer_completed:
  "getProject
     (registry (indexProject (sampleEnv objectAnalyzer 100) (pendingMetadata ''/p'')
        (newIndexer \<lparr> projects = [(''/p'', pendingMetadata ''/p'')], registryFile = None \<rparr>)))
     ''/p''
     = Some ((pendingMetadata ''/p'')
               \<lparr> lastIndexed := Some 1100, indexStatus := Completed, symbolCount := Some 0,
                 testCount := Some 0, docCount := Some 0, error := None \<rparr>)
   \<and> calls (indexProject (sampleEnv objectAnalyzer 100) (pendingMetadata ''/p'')
        (newIndexer \<lparr> projects = [(''/p'', pendingMetadata ''/p'')], registryFile = None \<rparr>))
     = [HandleTool ''go_find_symbols'' ''/p'']"
  by code_simp

lemma single_flight_call: "single_flight ix \<Longrightarrow> single_flight (indexPendingProjects_call nw ix)"
  by (auto simp: single_flight_def indexPendingProjects_call_def Let_def)

lemma single_flight_resume:
  assumes sf: "single_flight ix"
  shows "single_flight (indexPendingProjects_resume i e ix)"
proof (cases "batches ix")
  case Nil
  then show ?thesis using sf by (simp add: indexPendingProjects_resume_def)
next
  case (Cons b bs)
  with sf have bs: "bs = []" and b: "b \<noteq> []" by (auto simp: single_flight_def)
  then obtain p rest where "b = p # rest" by (cases b) auto
  with Cons bs sf show ?thesis
    by (cases i) (auto simp: single_flight_def indexPendingProjects_resume_def Let_def)
qed

lemma single_flight_step:
  assumes sf: "single_flight ix"
  shows "single_flight (step ev ix)"
proof (cases ev)
  case (CallBatch nw)
  then show ?thesis using sf by (simp add: single_flight_call)
next
  case (ResumeBatch i e)
  then show ?thesis using sf by (simp add: single_flight_resume)
next
  case (Reindex p e)
  then show ?thesis using sf
    by (auto simp: single_flight_def reindexProject_def split: option.splits)
next
  case (AddProject e project)
  then show ?thesis using sf by (simp add: single_flight_def)
next
  case (RemoveProject e p)
  then show ?thesis using sf by (simp add: single_flight_def)
qed

lemma single_flight_run: "single_flight ix \<Longrightarrow> single_flight (run evs ix)"
  by (induction evs arbitrary: ix) (auto intro: single_flight_step)

lemma single_flight_new: "single_flight (newIndexer r)"
  by (simp add: single_flight_def newIndexer_def)

text \<open>
  C1.  In every state the indexer reaches from a new one, by batch requests, steps of a
  running batch, forced reindexes and registry updates in any order: a batch request
  made while the flag is set changes nothing at all, neither the registry and its file
  nor the calls made to analyzers and storage nor the running batch; at most one batch
  is running, and the flag is set exactly while one is.  A request made while the flag
  is clear and some project needs indexing sets the flag in the same step in which it
  reads those projects, before anything is indexed; the step that indexes the last
  project of the batch clears the flag, so that the next request starts a batch again.
\<close>

theorem indexPendingProjects_single_flight:
  "(isIndexing (run evs (newIndexer r)) \<longrightarrow>
      step (CallBatch nw) (run evs (newIndexer r)) = run evs (newIndexer r))
   \<and> length (batches (run evs (newIndexer r))) \<le> 1
   \<and> (isIndexing (run evs (newIndexer r)) \<longleftrightarrow> batches (run evs (newIndexer r)) \<noteq> [])
   \<and> (\<not> isIndexing (run evs (newIndexer r))
        \<and> getProjectsNeedingIndex nw (registry (run evs (newIndexer r))) \<noteq> [] \<longrightarrow>
          isIndexing (step (CallBatch nw) (run evs (newIndexer r)))
        \<and> batches (step (CallBatch nw) (run evs (newIndexer r)))
            = [getProjectsNeedingIndex nw (registry (run evs (newIndexer r)))])
   \<and> (\<forall>p e. batches (run evs (newIndexer r)) = [[p]] \<longrightarrow>
          \<not> isIndexing (step (ResumeBatch 0 e) (run evs (newIndexer r)))
        \<and> batches (step (ResumeBatch 0 e) (run evs (newIndexer r))) = [])"
proof -
  let ?ix = "run evs (newIndexer r)"
  have sf: "single_flight ?ix"
    by (rule single_flight_run[OF single_flight_new])
  have a: "isIndexing ?ix \<longrightarrow> step (CallBatch nw) ?ix = ?ix"
    by (simp add: indexPendingProjects_call_def)
  have b: "length (batches ?ix) \<le> 1" "isIndexing ?ix \<longleftrightarrow> batches ?ix \<noteq> []"
    using sf by (simp_all add: single_flight_def)
  have c: "\<not> isIndexing ?ix \<and> getProjectsNeedingIndex nw (registry ?ix) \<noteq> [] \<longrightarrow>
          isIndexing (step (CallBatch nw) ?ix)
        \<and> batches (step (CallBatch nw) ?ix) = [getProjectsNeedingIndex nw (registry ?ix)]"
    using b by (auto simp: indexPendingProjects_call_def Let_def)
  have d: "\<forall>p e. batches ?ix = [[p]] \<longrightarrow>
          \<not> isIndexing (step (ResumeBatch 0 e) ?ix) \<and> batches (step (ResumeBatch 0 e) ?ix) = []"
    by (simp add: indexPendingProjects_resume_def Let_def)
  from a b c d show ?thesis by blast
qed

text \<open>
  An instance: with the batch for \<open>/a\<close> and \<open>/b\<close> running, a second request returns the
  state as it was.
\<close>

theorem indexPendingProjects_single_flight_witness:
  "isIndexing batchStarted \<and> step (CallBatch 9) batchStarted = batchStarted"
proof -
  have h: "isIndexing (run [AddProject (sampleIo 1) (sampleProject ''/a''),
                           AddProject (sampleIo 2) (sampleProject ''/b''),
                           CallBatch 5] (newIndexer emptyRegistry))"
    by code_simp
  note inst = indexPendingProjects_single_flight
                [of "[AddProject (sampleIo 1) (sampleProject ''/a''),
                      AddProject (sampleIo 2) (sampleProject ''/b''),
                      CallBatch 5]" emptyRegistry 9, THEN conjunct1, THEN mp, OF h]
  show ?thesis
    unfolding batchStarted_def by (rule conjI [OF h inst])
qed

section \<open>File watcher: filtering and debouncing\<close>

lemma str_includes_sublist: "str_includes s sub \<longleftrightarrow> sublist sub s"
  by (induction s) (auto simp: sublist_Cons_right)

lemma components_nonempty: "components s \<noteq> []"
  by (induction s) (auto split: list.splits)

lemma hd_components_prefix: "prefix (hd (components s)) s"
  by (induction s) (auto split: list.splits)

lemma components_sublist: "c \<in> set (components s) \<Longrightarrow> sublist c s"
proof (induction s arbitrary: c)
  case Nil
  then show ?case by simp
next
  case (Cons x xs)
  show ?case
  proof (cases "is_slash x")
    case True
    with Cons.prems have "c = [] \<or> c \<in> set (components xs)" by auto
    then show ?thesis using Cons.IH by (auto simp: sublist_Cons_right)
  next
    case False
    obtain l ls where l: "components xs = l # ls"
      using components_nonempty[of xs] by (cases "components xs") auto
    with False Cons.prems have "c = x # l \<or> c \<in> set ls" by auto
    then show ?thesis
    proof
      assume "c = x # l"
      moreover have "prefix l xs" using hd_components_prefix[of xs] l by simp
      ultimately show ?thesis by (simp add: sublist_Cons_right)
    next
      assume "c \<in> set ls"
      then have "c \<in> set (components xs)" using l by simp
      then show ?thesis using Cons.IH by (simp add: sublist_Cons_right)
    qed
  qed
qed

text \<open>A file under a directory with a denylisted name is ignored.\<close>

lemma underNoiseDirectory_ignored:
  assumes "underNoiseDirectory filename"
  shows "shouldIgnoreFile filename"
proof -
  from assms obtain d where d: "d \<in> set (butlast (components filename))" "d \<in> set ignorePaths"
    unfolding underNoiseDirectory_def list_ex_iff by blast
  then have "d \<in> set (components filename)" by (auto dest: in_set_butlastD)
  then have "str_includes filename d"
    by (simp add: str_includes_sublist components_sublist)
  with d(2) show ?thesis unfolding shouldIgnoreFile_def list_ex_iff by blast
qed

lemma debounceReindex_changes: "debounceReindex t project w \<noteq> w"
proof
  assume eq: "debounceReindex t project w = w"
  have "nextHandle (debounceReindex t project w) = Suc (nextHandle w)"
    by (simp add: debounceReindex_def Let_def clearTimeout_def split: option.splits)
  with eq show False by simp
qed

text \<open>
  A notification is dropped, arming no timer, exactly when the file name contains a
  denylisted name or its extension is none of the project's language.
\<close>

lemma handleFileChange_discards:
  "handleFileChange t project filename w = w \<longleftrightarrow>
     shouldIgnoreFile filename \<or> \<not> isSourceFile filename (language project)"
  using debounceReindex_changes[of t project w] by (auto simp: handleFileChange_def)

lemma mixed_extensions:
  "set (sourceExtensions Mixed)
     = set (sourceExtensions Go) \<union> set (sourceExtensions Python) \<union> set (sourceExtensions Nodejs)"
  by (simp add: sourceExtensions_def insert_commute)

text \<open>
  C8.  The claim drops a notification exactly when the path lies under a denylisted
  directory or the extension is not a source extension of the language.  The code tests
  whether the file name contains a denylisted name anywhere: \<open>src/template.go\<close> in a Go
  project lies under no denylisted directory and has the extension \<open>.go\<close>, yet it
  contains \<open>temp\<close>, and the notification is dropped with the watcher left as it was.
\<close>

theorem handleFileChange_substring_discard:
  "\<not> underNoiseDirectory ''src/template.go''
   \<and> extname ''src/template.go'' \<in> set (sourceExtensions (language (pendingMetadata ''/p'')))
   \<and> str_includes ''src/template.go'' ''temp''
   \<and> handleFileChange t (pendingMetadata ''/p'') ''src/template.go'' w = w"
proof -
  have a: "\<not> underNoiseDirectory ''src/template.go''
   \<and> extname ''src/template.go'' \<in> set (sourceExtensions (language (pendingMetadata ''/p'')))
   \<and> str_includes ''src/template.go'' ''temp''"
    by code_simp
  have ig: "shouldIgnoreFile ''src/template.go''"
    by code_simp
  have "handleFileChange t (pendingMetadata ''/p'') ''src/template.go'' w = w"
    by (simp add: handleFileChange_def ig)
  with a show ?thesis by (simp only: simp_thms)
qed


text \<open>What firing a list of timeouts does to each part of the watcher.\<close>

lemma fold_fireTimer:
  "timers (fold fireTimer ds w) = filter (\<lambda>x. fst x \<notin> fst ` set ds) (timers w)"
  "reindexCalls (fold fireTimer ds w) = reindexCalls w @ map (\<lambda>tm. (snd (snd tm), fst (snd tm))) ds"
  "debounceTimers (fold fireTimer ds w) = debounceTimers w"
  "watchers (fold fireTimer ds w) = watchers w"
  "nextHandle (fold fireTimer ds w) = nextHandle w"
  by (induction ds arbitrary: w) (auto simp: fireTimer_def intro: filter_cong)

lemma advance_fields [simp]:
  "debounceTimers (advance t w) = debounceTimers w"
  "watchers (advance t w) = watchers w"
  "nextHandle (advance t w) = nextHandle w"
  by (simp_all add: advance_def fold_fireTimer)

lemma advance_timers:
  assumes "distinct (map fst (timers w))"
  shows "timers (advance t w) = filter (\<lambda>tm. \<not> snd (snd tm) \<le> t) (timers w)"
proof -
  let ?due = "filter (\<lambda>tm. snd (snd tm) \<le> t) (timers w)"
  have eq: "fst x \<in> fst ` set ?due \<longleftrightarrow> snd (snd x) \<le> t" if "x \<in> set (timers w)" for x
  proof
    assume "fst x \<in> fst ` set ?due"
    then obtain y where y: "y \<in> set (timers w)" "snd (snd y) \<le> t" "fst y = fst x" by auto
    with that assms have "y = x" by (meson distinct_map inj_onD)
    with y show "snd (snd x) \<le> t" by simp
  next
    assume "snd (snd x) \<le> t"
    with that show "fst x \<in> fst ` set ?due" by force
  qed
  have "timers (advance t w) = filter (\<lambda>x. fst x \<notin> fst ` set ?due) (timers w)"
    unfolding advance_def by (rule fold_fireTimer(1))
  also have "\<dots> = filter (\<lambda>tm. \<not> snd (snd tm) \<le> t) (timers w)"
  proof (rule filter_cong[OF refl])
    fix x assume "x \<in> set (timers w)"
    from eq[OF this] show "(fst x \<notin> fst ` set ?due) = (\<not> snd (snd x) \<le> t)" by blast
  qed
  finally show ?thesis .
qed

lemma advance_calls:
  "reindexCallsFor k (advance t w) =
     reindexCallsFor k w
     @ map (\<lambda>tm. (snd (snd tm), fst (snd tm))) (filter (\<lambda>tm. snd (snd tm) \<le> t) (timersFor k w))"
  unfolding reindexCallsFor_def advance_def fold_fireTimer timersFor_def
  by (simp add: filter_map comp_def conj_commute)


lemma map_get_map_delete: "map_get (map_delete k m) k' = (if k' = k then None else map_get m k')"
  by (induction m) (auto simp: map_get_def map_delete_def)

lemma debounceReindex_fields:
  "timers (debounceReindex t pr w) =
     filter (\<lambda>tm. Some (fst tm) \<noteq> map_get (debounceTimers w) (path pr)) (timers w)
     @ [(nextHandle w, path pr, t + debounceDelay)]"
  "nextHandle (debounceReindex t pr w) = Suc (nextHandle w)"
  "debounceTimers (debounceReindex t pr w) = map_set (path pr) (nextHandle w) (debounceTimers w)"
  "watchers (debounceReindex t pr w) = watchers w"
  "reindexCalls (debounceReindex t pr w) = reindexCalls w"
  by (auto simp: debounceReindex_def Let_def clearTimeout_def split: option.splits
           intro: filter_cong)

text \<open>The facts about handles hold in every state: each delivery keeps them.\<close>

lemma watcher_inv_advance: "watcher_inv w \<Longrightarrow> watcher_inv (advance t w)"
  unfolding watcher_inv_def
  by (auto simp: advance_timers distinct_map_filter)

lemma timersFor_advance:
  "watcher_inv w \<Longrightarrow>
     timersFor k (advance t w) = filter (\<lambda>tm. \<not> snd (snd tm) \<le> t) (timersFor k w)"
  unfolding timersFor_def watcher_inv_def
  by (auto simp: advance_timers intro: filter_cong)

lemma armed_for_advance:
  assumes "watcher_inv w" and "armed_for k lst w"
    and "\<forall>t0. lst = Some t0 \<longrightarrow> t < t0 + debounceDelay"
  shows "armed_for k lst (advance t w) \<and> reindexCallsFor k (advance t w) = reindexCallsFor k w"
proof (cases lst)
  case None
  with assms show ?thesis
    by (simp add: armed_for_def timersFor_advance advance_calls)
next
  case (Some t0)
  with assms(2) obtain h where h: "timersFor k w = [(h, k, t0 + debounceDelay)]"
      "map_get (debounceTimers w) k = Some h"
    by (auto simp: armed_for_def)
  from assms(3) Some have "t < t0 + debounceDelay" by simp
  with h Some assms(1) show ?thesis
    by (simp add: armed_for_def timersFor_advance advance_calls)
qed

lemma watcher_inv_debounceReindex:
  assumes "watcher_inv w"
  shows "watcher_inv (debounceReindex t pr w)"
proof -
  have d: "distinct (map fst (timers w))"
    and lt: "\<forall>tm \<in> set (timers w). fst tm < nextHandle w"
    and j: "\<forall>q h. map_get (debounceTimers w) q = Some h \<longrightarrow>
             h < nextHandle w \<and> (\<forall>tm \<in> set (timers w). fst tm = h \<longrightarrow> fst (snd tm) = q)"
    and kw: "\<forall>q p'. map_get (watchers w) q = Some p' \<longrightarrow> path p' = q"
    using assms unfolding watcher_inv_def by auto
  have 1: "distinct (map fst (timers (debounceReindex t pr w)))"
    using d lt by (auto simp: debounceReindex_fields distinct_map_filter)
  have 2: "\<forall>tm \<in> set (timers (debounceReindex t pr w)). fst tm < nextHandle (debounceReindex t pr w)"
    using lt by (auto simp: debounceReindex_fields less_SucI)
  have 3: "\<forall>q h. map_get (debounceTimers (debounceReindex t pr w)) q = Some h \<longrightarrow>
             h < nextHandle (debounceReindex t pr w)
             \<and> (\<forall>tm \<in> set (timers (debounceReindex t pr w)). fst tm = h \<longrightarrow> fst (snd tm) = q)"
  proof (intro allI impI)
    fix q h
    assume g: "map_get (debounceTimers (debounceReindex t pr w)) q = Some h"
    show "h < nextHandle (debounceReindex t pr w)
             \<and> (\<forall>tm \<in> set (timers (debounceReindex t pr w)). fst tm = h \<longrightarrow> fst (snd tm) = q)"
    proof (cases "q = path pr")
      case True
      with g have "h = nextHandle w" by (simp add: debounceReindex_fields map_get_map_set)
      with True lt show ?thesis by (auto simp: debounceReindex_fields)
    next
      case False
      with g have "map_get (debounceTimers w) q = Some h"
        by (simp add: debounceReindex_fields map_get_map_set)
      with j have "h < nextHandle w" "\<forall>tm \<in> set (timers w). fst tm = h \<longrightarrow> fst (snd tm) = q"
        by auto
      then show ?thesis by (auto simp: debounceReindex_fields)
    qed
  qed
  have 4: "\<forall>q p'. map_get (watchers (debounceReindex t pr w)) q = Some p' \<longrightarrow> path p' = q"
    using kw by (simp add: debounceReindex_fields)
  from 1 2 3 4 show ?thesis unfolding watcher_inv_def by blast
qed

text \<open>
  A qualifying change of one project leaves the armed timeouts and the recorded handle
  of every other project alone.
\<close>

lemma timersFor_debounceReindex_other:
  assumes "watcher_inv w" and "k \<noteq> path pr"
  shows "timersFor k (debounceReindex t pr w) = timersFor k w"
    and "map_get (debounceTimers (debounceReindex t pr w)) k = map_get (debounceTimers w) k"
proof -
  have j: "\<forall>q h. map_get (debounceTimers w) q = Some h \<longrightarrow>
             (\<forall>tm \<in> set (timers w). fst tm = h \<longrightarrow> fst (snd tm) = q)"
    using assms(1) unfolding watcher_inv_def by auto
  have "filter (\<lambda>tm. fst (snd tm) = k)
          (filter (\<lambda>tm. Some (fst tm) \<noteq> map_get (debounceTimers w) (path pr)) (timers w))
        = filter (\<lambda>tm. fst (snd tm) = k) (timers w)"
    unfolding filter_filter
  proof (rule filter_cong[OF refl])
    fix x assume x: "x \<in> set (timers w)"
    show "(Some (fst x) \<noteq> map_get (debounceTimers w) (path pr) \<and> fst (snd x) = k)
            = (fst (snd x) = k)"
      using j x assms(2) by (metis)
  qed
  then show "timersFor k (debounceReindex t pr w) = timersFor k w"
    using assms(2) by (simp add: timersFor_def debounceReindex_fields)
  show "map_get (debounceTimers (debounceReindex t pr w)) k = map_get (debounceTimers w) k"
    using assms(2) by (simp add: debounceReindex_fields map_get_map_set)
qed

lemma armed_for_debounceReindex_same:
  assumes "armed_for (path pr) lst w"
  shows "armed_for (path pr) (Some t) (debounceReindex t pr w)"
proof (cases lst)
  case None
  with assms have e: "timersFor (path pr) w = []" by (simp add: armed_for_def)
  have "filter (\<lambda>tm. fst (snd tm) = path pr)
          (filter (\<lambda>tm. Some (fst tm) \<noteq> map_get (debounceTimers w) (path pr)) (timers w)) = []"
    using e unfolding timersFor_def by (auto simp: filter_empty_conv)
  then show ?thesis
    by (simp add: armed_for_def timersFor_def debounceReindex_fields map_get_map_set)
next
  case (Some t0)
  with assms obtain h where h: "timersFor (path pr) w = [(h, path pr, t0 + debounceDelay)]"
      "map_get (debounceTimers w) (path pr) = Some h"
    by (auto simp: armed_for_def)
  have "filter (\<lambda>tm. fst (snd tm) = path pr)
          (filter (\<lambda>tm. Some (fst tm) \<noteq> map_get (debounceTimers w) (path pr)) (timers w))
        = filter (\<lambda>tm. Some (fst tm) \<noteq> map_get (debounceTimers w) (path pr)) (timersFor (path pr) w)"
    unfolding timersFor_def filter_filter by (rule filter_cong) auto
  also have "\<dots> = []" using h by simp
  finally show ?thesis
    by (simp add: armed_for_def timersFor_def debounceReindex_fields map_get_map_set)
qed


lemma armed_for_cong:
  "timersFor k w' = timersFor k w \<Longrightarrow>
   map_get (debounceTimers w') k = map_get (debounceTimers w) k \<Longrightarrow>
   armed_for k lst w' = armed_for k lst w"
  by (simp add: armed_for_def split: option.splits)

lemma watcher_inv_reindexSettled: "watcher_inv w \<Longrightarrow> watcher_inv (reindexSettled q w)"
  unfolding watcher_inv_def reindexSettled_def
  by (auto simp: map_get_map_delete split: if_splits)

lemma reindexSettled_other:
  "q \<noteq> k \<Longrightarrow> timersFor k (reindexSettled q w) = timersFor k w
     \<and> map_get (debounceTimers (reindexSettled q w)) k = map_get (debounceTimers w) k
     \<and> reindexCalls (reindexSettled q w) = reindexCalls w
     \<and> watchers (reindexSettled q w) = watchers w"
  by (simp add: reindexSettled_def timersFor_def map_get_map_delete)

lemma handleFileChange_cases:
  "handleFileChange t pr f w =
     (if \<not> shouldIgnoreFile f \<and> isSourceFile f (language pr) then debounceReindex t pr w else w)"
  by (simp add: handleFileChange_def)

text \<open>One delivery inside a burst, and a whole burst, by induction on the deliveries.\<close>

lemma deliver_burst:
  assumes inv: "watcher_inv w" and armed: "armed_for k lst w"
    and watched: "map_get (watchers w) k = Some p"
    and ns: "ev \<noteq> Settled k"
  shows "watcher_inv (deliver ev t w)
       \<and> armed_for k (if qualifying_change k (language p) ev then Some t else lst) (deliver ev t w)
       \<and> reindexCallsFor k (deliver ev t w) = reindexCallsFor k w
       \<and> watchers (deliver ev t w) = watchers w"
proof (cases ev)
  case (Change q fo)
  show ?thesis
  proof (cases "map_get (watchers w) q")
    case None
    with watched have "q \<noteq> k" by auto
    with None Change inv armed show ?thesis by (cases fo) auto
  next
    case (Some pr)
    with inv have ppr: "path pr = q" unfolding watcher_inv_def by blast
    show ?thesis
    proof (cases fo)
      case None
      with Change Some inv armed show ?thesis by simp
    next
      case fo: (Some f)
      show ?thesis
      proof (cases "f \<noteq> [] \<and> \<not> shouldIgnoreFile f \<and> isSourceFile f (language pr)")
        case False
        then have same: "deliver ev t w = w"
          using Change Some fo by (auto simp: handleFileChange_cases)
        have "\<not> qualifying_change k (language p) ev"
          using False Change fo Some watched by auto
        with same inv armed show ?thesis by simp
      next
        case True
        then have d: "deliver ev t w = debounceReindex t pr w"
          using Change Some fo by (simp add: handleFileChange_cases)
        show ?thesis
        proof (cases "q = k")
          case qk: True
          with Some watched have "pr = p" by simp
          with qk ppr True Change fo have q: "qualifying_change k (language p) ev" by simp
          have "armed_for (path pr) (Some t) (debounceReindex t pr w)"
            using armed ppr qk by (intro armed_for_debounceReindex_same) simp
          with q d ppr qk inv show ?thesis
            by (simp add: watcher_inv_debounceReindex reindexCallsFor_def debounceReindex_fields)
        next
          case qk: False
          with Change have nq: "\<not> qualifying_change k (language p) ev" by (cases fo) auto
          from qk ppr have kp: "k \<noteq> path pr" by simp
          have "armed_for k lst (debounceReindex t pr w) = armed_for k lst w"
            using timersFor_debounceReindex_other[OF inv kp] by (intro armed_for_cong)
          with nq d inv armed show ?thesis
            by (simp add: watcher_inv_debounceReindex reindexCallsFor_def debounceReindex_fields)
        qed
      qed
    qed
  qed
next
  case (Settled q)
  with ns have qk: "q \<noteq> k" by simp
  have "armed_for k lst (reindexSettled q w) = armed_for k lst w"
    using reindexSettled_other[OF qk, of w] by (intro armed_for_cong) auto
  with Settled inv armed reindexSettled_other[OF qk, of w] show ?thesis
    by (simp add: watcher_inv_reindexSettled reindexCallsFor_def)
next
  case Tick
  with inv armed show ?thesis by simp
qed

lemma burst_run:
  assumes "watcher_inv w" and "armed_for k lst w" and "map_get (watchers w) k = Some p"
    and "within_burst k (language p) lst evs"
  shows "watcher_inv (watch_run evs w)
       \<and> armed_for k (last_change k (language p) lst evs) (watch_run evs w)
       \<and> reindexCallsFor k (watch_run evs w) = reindexCallsFor k w"
  using assms
proof (induction evs arbitrary: w lst)
  case Nil
  then show ?case by simp
next
  case (Cons tev evs)
  obtain t ev where tev: "tev = (t, ev)" by (cases tev)
  let ?w1 = "advance t w"
  let ?w2 = "deliver ev t ?w1"
  let ?lst = "if qualifying_change k (language p) ev then Some t else lst"
  from Cons.prems(4) tev have win: "\<forall>t0. lst = Some t0 \<longrightarrow> t < t0 + debounceDelay"
    and ns: "ev \<noteq> Settled k" and rest: "within_burst k (language p) ?lst evs"
    by (auto split: option.splits)
  have a1: "watcher_inv ?w1" using Cons.prems(1) by (rule watcher_inv_advance)
  have a2: "armed_for k lst ?w1" "reindexCallsFor k ?w1 = reindexCallsFor k w"
    using armed_for_advance[OF Cons.prems(1,2) win] by simp_all
  have a3: "map_get (watchers ?w1) k = Some p" using Cons.prems(3) by simp
  from deliver_burst[OF a1 a2(1) a3 ns, of t]
  have d: "watcher_inv ?w2" "armed_for k ?lst ?w2" "reindexCallsFor k ?w2 = reindexCallsFor k ?w1"
    "watchers ?w2 = watchers ?w1" by simp_all
  have a4: "map_get (watchers ?w2) k = Some p" using d(4) a3 by simp
  from Cons.IH[OF d(1) d(2) a4 rest] d(3) a2(2) tev show ?case by simp
qed

text \<open>
  Debouncing as designed.  Start where no timeout of the project is armed.  Let changes
  of the project and anything else be delivered, each before the timeout of the last
  qualifying change is due, with no reindex of the project settling meanwhile.  Once
  the clock has passed the last qualifying change by the delay, exactly one reindex
  call has been added for the project, made by the timeout of that last change.
\<close>

theorem debounce_one_call_per_burst:
  assumes "watcher_inv w" and "map_get (watchers w) k = Some p" and "timersFor k w = []"
    and "within_burst k (language p) None evs"
    and "last_change k (language p) None evs = Some t0"
    and "t0 + debounceDelay \<le> T"
  shows "reindexCallsFor k (advance T (watch_run evs w))
           = reindexCallsFor k w @ [(t0 + debounceDelay, k)]"
proof -
  have "armed_for k None w" using assms(3) by (simp add: armed_for_def)
  from burst_run[OF assms(1) this assms(2,4)] assms(5)
  have r: "watcher_inv (watch_run evs w)" "armed_for k (Some t0) (watch_run evs w)"
    "reindexCallsFor k (watch_run evs w) = reindexCallsFor k w" by simp_all
  from r(2) obtain h where "timersFor k (watch_run evs w) = [(h, k, t0 + debounceDelay)]"
    by (auto simp: armed_for_def)
  with assms(6) r(3) show ?thesis by (simp add: advance_calls)
qed

lemma watcher_inv_new: "watcher_inv newWatcher"
  by (simp add: watcher_inv_def newWatcher_def map_get_def)

lemma watcher_inv_watchProject: "watcher_inv w \<Longrightarrow> watcher_inv (watchProject ok pr w)"
  unfolding watcher_inv_def watchProject_def
  by (auto simp: map_get_map_set split: if_splits)


text \<open>An instance: three changes of \<open>/p\<close> at 0, 3000 and 7000 give one call, due at 12000.\<close>

lemma watching_ok:
  "watcher_inv watching \<and> map_get (watchers watching) ''/p'' = Some (sampleMetadata ''/p'' None Pending None)
    \<and> timersFor ''/p'' watching = []"
  unfolding watching_def
  apply (intro conjI watcher_inv_watchProject watcher_inv_new)
   apply code_simp
  apply code_simp
  done

lemma burst_instance:
  "reindexCallsFor ''/p''
     (advance 20000
        (watch_run [(0, Change ''/p'' (Some ''main.go'')), (3000, Change ''/p'' (Some ''util.go'')),
                    (7000, Change ''/p'' (Some ''main.go''))] watching))
   = [(12000, ''/p'')]"
proof -
  have wb: "within_burst ''/p'' (language (sampleMetadata ''/p'' None Pending None)) None
              [(0, Change ''/p'' (Some ''main.go'')), (3000, Change ''/p'' (Some ''util.go'')),
               (7000, Change ''/p'' (Some ''main.go''))]"
    by code_simp
  have lc: "last_change ''/p'' (language (sampleMetadata ''/p'' None Pending None)) None
              [(0, Change ''/p'' (Some ''main.go'')), (3000, Change ''/p'' (Some ''util.go'')),
               (7000, Change ''/p'' (Some ''main.go''))] = Some 7000"
    by code_simp
  have le: "7000 + debounceDelay \<le> 20000" by (simp add: debounceDelay_def)
  have c0: "reindexCallsFor ''/p'' watching = []" by code_simp
  from debounce_one_call_per_burst[OF watching_ok[THEN conjunct1]
         watching_ok[THEN conjunct2, THEN conjunct1] watching_ok[THEN conjunct2, THEN conjunct2]
         wb lc le]
  show ?thesis unfolding c0 by (simp add: debounceDelay_def)
qed

text \<open>
  C2.  The claim promises one reindex call for a burst.  The callback of a timeout
  deletes the entry of its project from \<open>debounceTimers\<close> when its reindex has settled,
  whatever handle the entry holds by then.  Below, the timeout of an earlier change
  fires at 5000 and its reindex runs until 7000.  A burst of two changes arrives at
  6000 and 8000, two seconds apart: the first arms a timeout due at 11000 and records
  it, the settling at 7000 deletes that record, so the second change finds nothing to
  cancel and arms a timeout due at 13000.  Both fire: the burst makes two reindex calls.
  Without the settling in between, the same burst makes one, as it does in general when
  no reindex of the project settles during the burst.
\<close>

theorem debounce_burst_during_reindex:
  "qualifying_change ''/p'' (language (sampleMetadata ''/p'' None Pending None))
     (Change ''/p'' (Some ''main.go''))
   \<and> qualifying_change ''/p'' (language (sampleMetadata ''/p'' None Pending None))
     (Change ''/p'' (Some ''util.go''))
   \<and> 8000 - 6000 < debounceDelay
   \<and> reindexCalls (watch_run [(0, Change ''/p'' (Some ''main.go'')), (5000, Tick)] watching)
     = [(5000, ''/p'')]
   \<and> reindexCalls
       (watch_run [(0, Change ''/p'' (Some ''main.go'')), (5000, Tick),
                   (6000, Change ''/p'' (Some ''main.go'')), (7000, Settled ''/p''),
                   (8000, Change ''/p'' (Some ''util.go'')), (20000, Tick)] watching)
     = [(5000, ''/p''), (11000, ''/p''), (13000, ''/p'')]
   \<and> reindexCalls
       (watch_run [(0, Change ''/p'' (Some ''main.go'')), (5000, Tick),
                   (6000, Change ''/p'' (Some ''main.go'')),
                   (8000, Change ''/p'' (Some ''util.go'')), (20000, Tick)] watching)
     = [(5000, ''/p''), (13000, ''/p'')]"
  by code_simp

end
